theory Spec2Isabelle
  imports Complex_Main "HOL-Library.Log_Nat" "HOL-Library.Multiset"
begin

section \<open>JavaScript values used by the clinic manager\<close>

subsection \<open>Numbers\<close>

text \<open>
  A TypeScript \<open>number\<close> is an IEEE 754 binary64 value. A finite one is modelled by the
  rational it denotes (the two zeros are identified: addition and \<open>toFixed\<close>, the only
  operations the components apply, do not tell them apart in what they return here).
  \<open>to_double\<close> rounds a rational to the nearest double, ties to even, with gradual
  underflow below \<open>2\<^sup>-\<^sup>1\<^sup>0\<^sup>2\<^sup>2\<close> and overflow to an infinity from \<open>2\<^sup>1\<^sup>0\<^sup>2\<^sup>4\<close>.
\<close>

datatype number = Finite rat | PosInf | NegInf | NaN

definition pow2 :: "int \<Rightarrow> rat" where
  "pow2 e = (if 0 \<le> e then 2 ^ nat e else 1 / 2 ^ nat (- e))"

definition ilog2 :: "rat \<Rightarrow> int" where
  \<comment> \<open>\<open>\<lfloor>log\<^sub>2 x\<rfloor>\<close> for \<open>x > 0\<close>\<close>
  "ilog2 x = (let (p, q) = quotient_of x; d = bitlen p - bitlen q
              in if pow2 d \<le> x then d else d - 1)"

definition round_half_even :: "rat \<Rightarrow> int" where
  "round_half_even r =
     (let f = \<lfloor>r\<rfloor>; d = r - of_int f
      in if d < 1 / 2 then f else if 1 / 2 < d then f + 1 else if even f then f else f + 1)"

definition to_double :: "rat \<Rightarrow> number" where
  "to_double x =
     (if x = 0 then Finite 0
      else let u = pow2 (max (ilog2 \<bar>x\<bar>) (- 1022) - 52);
               y = of_int (round_half_even (x / u)) * u
           in if pow2 1024 \<le> \<bar>y\<bar> then (if 0 < x then PosInf else NegInf) else Finite y)"

definition is_double :: "number \<Rightarrow> bool" where
  "is_double n = (case n of Finite r \<Rightarrow> to_double r = Finite r | _ \<Rightarrow> True)"

fun num_add :: "number \<Rightarrow> number \<Rightarrow> number" where
  "num_add (Finite a) (Finite b) = to_double (a + b)"
| "num_add NaN _ = NaN"
| "num_add _ NaN = NaN"
| "num_add PosInf NegInf = NaN"
| "num_add NegInf PosInf = NaN"
| "num_add PosInf _ = PosInf"
| "num_add _ PosInf = PosInf"
| "num_add NegInf _ = NegInf"
| "num_add _ NegInf = NegInf"

definition truthy_number :: "number \<Rightarrow> bool" where
  \<comment> \<open>ToBoolean on a number: \<open>0\<close> and \<open>NaN\<close> are falsy\<close>
  "truthy_number n = (n \<noteq> NaN \<and> n \<noteq> Finite 0)"

text \<open>
  \<open>Number.prototype.toFixed(2)\<close>: below \<open>10\<^sup>2\<^sup>1\<close> the integer \<open>n\<close> with \<open>n / 100\<close> nearest
  to the magnitude, the larger one on a tie, printed with two decimals behind the sign.
  From \<open>10\<^sup>2\<^sup>1\<close> the result is the number's ordinary string form, which is taken as the
  parameter \<open>big\<close> (the shortest round-trip digits are the engine's business).
\<close>

definition cents :: "rat \<Rightarrow> nat" where
  "cents r = nat \<lfloor>\<bar>r\<bar> * 100 + 1 / 2\<rfloor>"

definition signed_cents :: "rat \<Rightarrow> int" where
  "signed_cents r = (if r < 0 then - int (cents r) else int (cents r))"

definition digit :: "nat \<Rightarrow> char" where
  "digit d = ''0123456789'' ! d"

fun nat_to_string :: "nat \<Rightarrow> string" where
  "nat_to_string n = (if n < 10 then [digit n] else nat_to_string (n div 10) @ [digit (n mod 10)])"

declare nat_to_string.simps [simp del]

definition toFixed2 :: "(rat \<Rightarrow> string) \<Rightarrow> number \<Rightarrow> string" where
  "toFixed2 big x =
     (case x of
        NaN \<Rightarrow> ''NaN''
      | PosInf \<Rightarrow> ''Infinity''
      | NegInf \<Rightarrow> ''-Infinity''
      | Finite r \<Rightarrow>
          (if r < 0 then ''-'' else '''') @
          (if 10 ^ 21 \<le> \<bar>r\<bar> then big \<bar>r\<bar>
           else let n = cents r
                in nat_to_string (n div 100) @ ''.'' @ [digit (n mod 100 div 10), digit (n mod 10)]))"

subsection \<open>Objects used as dictionaries\<close>

text \<open>
  \<open>calculateTotals\<close> keeps its groups in an object literal \<open>{}\<close>. Such an object has
  its own properties, kept in creation order, and inherits those of \<open>Object.prototype\<close>:
  reading \<open>acc[k]\<close> for one of the inherited names yields a built-in function (or, for
  \<open>__proto__\<close>, the prototype object) even though \<open>acc\<close> has no such property itself.
  A character of a \<open>string\<close> stands for one code unit of the JavaScript string.
\<close>

datatype js_error = TypeError | RangeError

type_synonym 'v object = "(string \<times> 'v) list"

datatype 'v property = Absent | Own 'v | Builtin

definition object_prototype_keys :: "string list" where
  "object_prototype_keys =
     [''constructor'', ''__defineGetter__'', ''__defineSetter__'', ''hasOwnProperty'',
      ''__lookupGetter__'', ''__lookupSetter__'', ''isPrototypeOf'', ''propertyIsEnumerable'',
      ''toString'', ''valueOf'', ''__proto__'', ''toLocaleString'']"

definition get_prop :: "'v object \<Rightarrow> string \<Rightarrow> 'v property" where
  "get_prop obj k =
     (case map_of obj k of
        Some v \<Rightarrow> Own v
      | None \<Rightarrow> if k \<in> set object_prototype_keys then Builtin else Absent)"

definition truthy :: "'v property \<Rightarrow> bool" where
  \<comment> \<open>objects and functions are truthy, \<open>undefined\<close> is not\<close>
  "truthy p = (p \<noteq> Absent)"

primrec set_prop :: "'v object \<Rightarrow> string \<Rightarrow> 'v \<Rightarrow> 'v object" where
  "set_prop [] k v = [(k, v)]"
| "set_prop (p # ps) k v = (if fst p = k then (k, v) # ps else p # set_prop ps k v)"

text \<open>
  \<open>Object.values\<close> lists the own properties whose name is an array index (the canonical
  decimal form of an integer from \<open>0\<close> to \<open>2\<^sup>3\<^sup>2 - 2\<close>) first, in ascending numeric order,
  and the others after them in creation order.
\<close>

definition is_digit :: "char \<Rightarrow> bool" where
  "is_digit c = (c \<in> set ''0123456789'')"

definition digit_value :: "char \<Rightarrow> nat" where
  "digit_value c = of_char c - 48"

definition parse_nat :: "string \<Rightarrow> nat" where
  "parse_nat s = foldl (\<lambda>n c. 10 * n + digit_value c) 0 s"

definition is_array_index :: "string \<Rightarrow> bool" where
  "is_array_index s =
     (s \<noteq> [] \<and> list_all is_digit s \<and> (hd s = CHR ''0'') = (s = ''0'') \<and> parse_nat s < 2 ^ 32 - 1)"

definition key_order :: "string list \<Rightarrow> string list" where
  "key_order ks = sort_key parse_nat (filter is_array_index ks) @ filter (\<lambda>k. \<not> is_array_index k) ks"

definition object_values :: "'v object \<Rightarrow> 'v list" where
  "object_values obj =
     map snd (sort_key (\<lambda>p. parse_nat (fst p)) (filter (\<lambda>p. is_array_index (fst p)) obj) @
              filter (\<lambda>p. \<not> is_array_index (fst p)) obj)"

section \<open>FinancialReport\<close>

record appointmentWithPatient =
  app_id :: string
  app_date :: string
  app_patientName :: string
  app_value :: number

record patientTotal =
  patientName :: string
  totalValue :: number
  appointments :: "appointmentWithPatient list"

subsection \<open>calculateTotals\<close>

text \<open>
  The callback of \<open>apps.reduce\<close>. When \<open>acc[app.patientName]\<close> is falsy a fresh group is
  stored under the name. The two updates that follow act on whatever \<open>acc[app.patientName]\<close>
  then is: on a group they add the value and push the record; on a built-in inherited
  from \<open>Object.prototype\<close> the first leaves a \<open>totalValue\<close> on the built-in and the
  second reads its missing \<open>appointments\<close> and throws a \<open>TypeError\<close>.
\<close>

definition reducer ::
  "patientTotal object \<Rightarrow> appointmentWithPatient \<Rightarrow> js_error + patientTotal object" where
  "reducer acc app =
     (let k = app_patientName app;
          acc1 = (if \<not> truthy (get_prop acc k)
                  then set_prop acc k \<lparr>patientName = k, totalValue = Finite 0, appointments = []\<rparr>
                  else acc)
      in case get_prop acc1 k of
           Own t \<Rightarrow>
             Inr (set_prop acc1 k
                    (t\<lparr>totalValue := num_add (totalValue t) (app_value app),
                       appointments := appointments t @ [app]\<rparr>))
         | Builtin \<Rightarrow> Inl TypeError
         | Absent \<Rightarrow> Inl TypeError)"

fun reduce :: "('a \<Rightarrow> 'b \<Rightarrow> js_error + 'a) \<Rightarrow> 'b list \<Rightarrow> 'a \<Rightarrow> js_error + 'a" where
  "reduce f [] acc = Inr acc"
| "reduce f (x # xs) acc = (case f acc x of Inl e \<Rightarrow> Inl e | Inr acc' \<Rightarrow> reduce f xs acc')"

definition sum_totals :: "patientTotal list \<Rightarrow> number" where
  "sum_totals ps = foldl (\<lambda>sum patient. num_add sum (totalValue patient)) (Finite 0) ps"

text \<open>
  \<open>calculateTotals\<close> returns the two values it hands to \<open>setPatientTotals\<close> and
  \<open>setTotalValue\<close>, or the exception that leaves it before either setter runs.
\<close>

definition calculateTotals ::
  "appointmentWithPatient list \<Rightarrow> js_error + (patientTotal list \<times> number)" where
  "calculateTotals apps =
     (case reduce reducer apps [] of
        Inl e \<Rightarrow> Inl e
      | Inr totals \<Rightarrow>
          (let patientTotalsList = object_values totals
           in Inr (patientTotalsList, sum_totals patientTotalsList)))"

subsection \<open>fetchAppointments\<close>

text \<open>
  A row of the response to the report's query: \<open>id\<close>, \<open>date\<close>, \<open>value\<close> and the joined
  \<open>patients (name)\<close>, which is \<open>null\<close> when the patient cannot be resolved.
\<close>

record patients_join =
  pj_name :: string

record report_row =
  rr_id :: string
  rr_date :: string
  rr_value :: "number option"
  rr_patients :: "patients_join option"

datatype 'a response = Failed string | Data 'a

record toast =
  title :: string
  description :: string
  destructive :: bool

definition or_zero :: "number option \<Rightarrow> number" where
  \<comment> \<open>\<open>app.value || 0\<close>\<close>
  "or_zero v = (case v of None \<Rightarrow> Finite 0 | Some n \<Rightarrow> if truthy_number n then n else Finite 0)"

definition has_patient_name :: "report_row \<Rightarrow> bool" where
  \<comment> \<open>\<open>app.patients && app.patients.name\<close>: the empty string is falsy\<close>
  "has_patient_name app = (case rr_patients app of None \<Rightarrow> False | Some p \<Rightarrow> pj_name p \<noteq> [])"

definition format_row :: "report_row \<Rightarrow> appointmentWithPatient" where
  "format_row app =
     \<lparr>app_id = rr_id app,
      app_date = rr_date app,
      app_patientName =
        (case rr_patients app of
           None \<Rightarrow> ''Paciente Desconhecido''
         | Some p \<Rightarrow> if pj_name p \<noteq> [] then pj_name p else ''Paciente Desconhecido''),
      app_value = or_zero (rr_value app)\<rparr>"

definition formattedAppointments :: "report_row list \<Rightarrow> appointmentWithPatient list" where
  "formattedAppointments data = map format_row (filter has_patient_name data)"

record report_state =
  rs_appointments :: "appointmentWithPatient list"
  rs_patientTotals :: "patientTotal list"
  rs_totalValue :: number
  rs_isLoading :: bool
  rs_toasts :: "toast list"

definition initial_report :: report_state where
  "initial_report =
     \<lparr>rs_appointments = [], rs_patientTotals = [], rs_totalValue = Finite 0,
      rs_isLoading = True, rs_toasts = []\<rparr>"

text \<open>
  \<open>fetchAppointments\<close> on the service's response. An exception of \<open>calculateTotals\<close> is
  not caught: it leaves the function with the state as it is then (the spinner still on),
  which is the second component of the result.
\<close>

definition fetchAppointments ::
  "report_row list response \<Rightarrow> report_state \<Rightarrow> report_state \<times> js_error option" where
  "fetchAppointments resp st =
     (let st1 = st\<lparr>rs_isLoading := True\<rparr>
      in case resp of
           Failed msg \<Rightarrow>
             (st1\<lparr>rs_toasts := rs_toasts st1 @
                     [\<lparr>title = ''Erro ao carregar consultas'', description = msg,
                       destructive = True\<rparr>],
                  rs_isLoading := False\<rparr>, None)
         | Data data \<Rightarrow>
             (let st2 = st1\<lparr>rs_appointments := formattedAppointments data\<rparr>
              in case calculateTotals (formattedAppointments data) of
                   Inl e \<Rightarrow> (st2, Some e)
                 | Inr (patientTotalsList, grand) \<Rightarrow>
                     (st2\<lparr>rs_patientTotals := patientTotalsList, rs_totalValue := grand,
                          rs_isLoading := False\<rparr>, None)))"

subsection \<open>handleExportExcel\<close>

text \<open>
  The \<open>Date\<close> values of the export. \<open>new Date(s)\<close> on a date of the form \<open>yyyy-MM-dd\<close>,
  as the \<open>date\<close> column of the store delivers it, is midnight of that day in UTC; any
  other string is left to the engine's parser (\<open>Date_parse\<close>). An instant is kept as its
  day in UTC and the minute of that day.
\<close>

type_synonym civil = "int \<times> nat \<times> nat"

datatype js_date = InvalidDate | Instant civil nat

datatype month =
  January | February | March | April | May | June | July | August | September | October |
  November | December

text \<open>
  What the export takes from outside the repository: the engine's string form of a number
  from \<open>10\<^sup>2\<^sup>1\<close>, its parser of dates, the offset of the browser's time zone from UTC at an
  instant, in minutes, and the local month and year of the moment of the export.
\<close>

record host =
  number_toString :: "rat \<Rightarrow> string"
  Date_parse :: "string \<Rightarrow> js_date"
  utc_offset :: "civil \<Rightarrow> nat \<Rightarrow> int"
  current_month :: month
  current_year :: nat

definition leap_year :: "int \<Rightarrow> bool" where
  "leap_year y = (if y mod 400 = 0 then True else if y mod 100 = 0 then False else y mod 4 = 0)"

definition days_in_month :: "int \<Rightarrow> nat \<Rightarrow> nat" where
  "days_in_month y m =
     (if m = 2 then (if leap_year y then 29 else 28)
      else if m = 4 \<or> m = 6 \<or> m = 9 \<or> m = 11 then 30 else 31)"

fun previous_day :: "civil \<Rightarrow> civil" where
  "previous_day (y, m, d) =
     (if 1 < d then (y, m, d - 1)
      else if 1 < m then (y, m - 1, days_in_month y (m - 1))
      else (y - 1, 12, 31))"

fun next_day :: "civil \<Rightarrow> civil" where
  "next_day (y, m, d) =
     (if d < days_in_month y m then (y, m, d + 1)
      else if m < 12 then (y, m + 1, 1)
      else (y + 1, 1, 1))"

definition add_days :: "int \<Rightarrow> civil \<Rightarrow> civil" where
  "add_days n c = (if 0 \<le> n then (next_day ^^ nat n) c else (previous_day ^^ nat (- n)) c)"

definition date_only :: "string \<Rightarrow> civil option" where
  \<comment> \<open>the day that a string \<open>yyyy-MM-dd\<close> names, when it names a day of the calendar\<close>
  "date_only s =
     (if length s = 10 \<and> s ! 4 = CHR ''-'' \<and> s ! 7 = CHR ''-'' \<and>
         list_all is_digit (take 4 s @ take 2 (drop 5 s) @ drop 8 s)
      then (let y = int (parse_nat (take 4 s)); m = parse_nat (take 2 (drop 5 s));
                d = parse_nat (drop 8 s)
            in if 1 \<le> m \<and> m \<le> 12 \<and> 1 \<le> d \<and> d \<le> days_in_month y m then Some (y, m, d)
               else None)
      else None)"

definition new_Date :: "host \<Rightarrow> string \<Rightarrow> js_date" where
  "new_Date h s = (case date_only s of Some c \<Rightarrow> Instant c 0 | None \<Rightarrow> Date_parse h s)"

definition local_day :: "host \<Rightarrow> civil \<Rightarrow> nat \<Rightarrow> civil" where
  \<comment> \<open>the day of the browser's calendar in which the instant falls\<close>
  "local_day h c minute = add_days ((int minute + utc_offset h c minute) div 1440) c"

definition two_digits :: "nat \<Rightarrow> string" where
  "two_digits n = [digit (n div 10 mod 10), digit (n mod 10)]"

definition pad4 :: "string \<Rightarrow> string" where
  "pad4 s = replicate (4 - length s) CHR ''0'' @ s"

definition year_yyyy :: "int \<Rightarrow> string" where
  \<comment> \<open>token \<open>yyyy\<close> of date-fns: the year of the era, at least four digits\<close>
  "year_yyyy y = pad4 (nat_to_string (nat (if 0 < y then y else 1 - y)))"

text \<open>
  \<open>format(date, 'dd/MM/yyyy')\<close> of date-fns reads the day, the month and the year of the
  date in the browser's time zone, and throws a \<open>RangeError\<close> on an invalid date.
\<close>

definition format_ddMMyyyy :: "host \<Rightarrow> js_date \<Rightarrow> js_error + string" where
  "format_ddMMyyyy h date =
     (case date of
        InvalidDate \<Rightarrow> Inl RangeError
      | Instant c minute \<Rightarrow>
          (case local_day h c minute of
             (y, m, d) \<Rightarrow> Inr (two_digits d @ ''/'' @ two_digits m @ ''/'' @ year_yyyy y)))"

definition currency :: "host \<Rightarrow> number \<Rightarrow> string" where
  \<comment> \<open>\<open>`R$ ${v.toFixed(2)}`\<close>\<close>
  "currency h v = ''R$ '' @ toFixed2 (number_toString h) v"

fun map_throw :: "('a \<Rightarrow> js_error + 'b) \<Rightarrow> 'a list \<Rightarrow> js_error + 'b list" where
  \<comment> \<open>\<open>map\<close> with a callback that may throw: the first exception ends it\<close>
  "map_throw f [] = Inr []"
| "map_throw f (x # xs) =
     (case f x of
        Inl e \<Rightarrow> Inl e
      | Inr y \<Rightarrow> (case map_throw f xs of Inl e \<Rightarrow> Inl e | Inr ys \<Rightarrow> Inr (y # ys)))"

definition sheet_record :: "host \<Rightarrow> appointmentWithPatient \<Rightarrow> js_error + string list" where
  \<comment> \<open>the object of one appointment, as its \<open>Paciente\<close>, \<open>Data\<close>, \<open>Valor\<close> cells\<close>
  "sheet_record h app =
     (case format_ddMMyyyy h (new_Date h (app_date app)) of
        Inl e \<Rightarrow> Inl e
      | Inr data \<Rightarrow> Inr [app_patientName app, data, currency h (app_value app)])"

definition sheet_records :: "host \<Rightarrow> patientTotal list \<Rightarrow> js_error + string list list" where
  \<comment> \<open>\<open>patientTotals.flatMap(patient => patient.appointments.map(...))\<close>\<close>
  "sheet_records h patientTotals =
     map_throw (sheet_record h) (concat (map appointments patientTotals))"

definition json_to_sheet :: "string list list \<Rightarrow> string list list" where
  \<comment> \<open>SheetJS: a header row of the keys, then a row per object; one blank row for no object\<close>
  "json_to_sheet rows = (if rows = [] then [Nil] else [''Paciente'', ''Data'', ''Valor''] # rows)"

definition totalRows :: "host \<Rightarrow> patientTotal list \<Rightarrow> number \<Rightarrow> string list list" where
  "totalRows h patientTotals grand =
     map (\<lambda>patient. [''Total '' @ patientName patient @ '':'', [],
                      currency h (totalValue patient)]) patientTotals @
     [ [''Total Geral:'', [], currency h grand] ]"

definition sheet_add_aoa :: "string list list \<Rightarrow> string list list \<Rightarrow> string list list" where
  \<comment> \<open>\<open>{origin: -1}\<close>: the rows go below the last row of the sheet\<close>
  "sheet_add_aoa worksheet rows = worksheet @ rows"

fun month_ptBR :: "month \<Rightarrow> string" where
  \<comment> \<open>the wide month names of the \<open>ptBR\<close> locale of date-fns\<close>
  "month_ptBR January = ''janeiro''"
| "month_ptBR February = ''fevereiro''"
| "month_ptBR March = ''mar'' @ [char_of (231 :: nat)] @ ''o''"
| "month_ptBR April = ''abril''"
| "month_ptBR May = ''maio''"
| "month_ptBR June = ''junho''"
| "month_ptBR July = ''julho''"
| "month_ptBR August = ''agosto''"
| "month_ptBR September = ''setembro''"
| "month_ptBR October = ''outubro''"
| "month_ptBR November = ''novembro''"
| "month_ptBR December = ''dezembro''"

definition currentMonth :: "host \<Rightarrow> string" where
  \<comment> \<open>\<open>format(new Date(), 'MMMM-yyyy', { locale: ptBR })\<close>\<close>
  "currentMonth h = month_ptBR (current_month h) @ ''-'' @ year_yyyy (int (current_year h))"

text \<open>
  The export is the sheet, as its rows of cells, and the name under which \<open>FileSaver\<close>
  saves it (the column widths and the toast that follows are left out), or the exception
  that leaves the handler before a sheet exists.
\<close>

record export =
  ex_rows :: "string list list"
  ex_filename :: string

definition handleExportExcel :: "host \<Rightarrow> report_state \<Rightarrow> js_error + export" where
  "handleExportExcel h st =
     (case sheet_records h (rs_patientTotals st) of
        Inl e \<Rightarrow> Inl e
      | Inr records \<Rightarrow>
          Inr \<lparr>ex_rows = sheet_add_aoa (json_to_sheet records)
                            (totalRows h (rs_patientTotals st) (rs_totalValue st)),
               ex_filename = ''relatorio-financeiro-'' @ currentMonth h @ ''.xlsx''\<rparr>)"

section \<open>AppointmentScheduling\<close>

record patient_ref =
  pr_id :: string
  pr_name :: string

record type_ref =
  tr_id :: string
  tr_name :: string
  tr_value :: number

record appointment =
  a_id :: string
  a_patient_id :: string
  a_date :: string
  a_time :: string
  a_value :: number
  a_appointment_type_id :: "string option"
  a_patient :: "patient_ref option"
  a_appointment_type :: "type_ref option"

record appointmentType =
  t_id :: string
  t_name :: string
  t_value :: number
  t_user_id :: string

subsection \<open>The list of scheduled consultations\<close>

record scheduled_row =
  row_key :: string
  row_cells :: "string list"

datatype consultas = Table "scheduled_row list" | NoAppointments

text \<open>
  \<open>appointments.filter(a => a.patient !== null).map(row)\<close>: the row reads
  \<open>appointment.patient.name\<close>, which only the appointments that pass the filter have.
\<close>

definition scheduled_row_of :: "host \<Rightarrow> appointment \<Rightarrow> patient_ref \<Rightarrow> scheduled_row" where
  \<comment> \<open>the \<open>TableRow\<close> of an appointment whose joined patient is \<open>patient\<close>\<close>
  "scheduled_row_of h appointment patient =
     \<lparr>row_key = a_id appointment,
      row_cells =
        [pr_name patient, a_date appointment, a_time appointment,
         (case a_appointment_type appointment of
            None \<Rightarrow> ''N/A''
          | Some t \<Rightarrow> if tr_name t \<noteq> [] then tr_name t else ''N/A''),
         currency h (a_value appointment)]\<rparr>"

definition scheduled_rows :: "host \<Rightarrow> appointment list \<Rightarrow> scheduled_row list" where
  "scheduled_rows h appts =
     List.map_filter (\<lambda>appointment.
        case a_patient appointment of
          None \<Rightarrow> None
        | Some patient \<Rightarrow> Some (scheduled_row_of h appointment patient)) appts"

definition consultas_agendadas :: "host \<Rightarrow> appointment list \<Rightarrow> consultas" where
  "consultas_agendadas h appts =
     (if length (filter (\<lambda>appointment. a_patient appointment \<noteq> None) appts) > 0
      then Table (scheduled_rows h appts) else NoAppointments)"

subsection \<open>The record store and the component state\<close>

text \<open>
  The service holds the rows of \<open>appointments\<close> (with their owner) and of
  \<open>appointment_types\<close>. The component reaches it only through requests, each of which
  the service may fail with a message (\<open>fails\<close>); every request issued is logged. The
  \<open>order\<close> clauses of the queries are the service's business and are left out.
\<close>

record appointment_row = appointment +
  a_user_id :: string

record service =
  sv_appointments :: "appointment_row list"
  sv_appointment_types :: "appointmentType list"

datatype request =
  SelectAppointmentsUsingType string
| DeleteAppointmentType string
| SelectAppointmentTypes string
| SelectAppointments string

record scheduling =
  sc_service :: service
  sc_requests :: "request list"
  sc_currentUser :: "string option"
  sc_appointments :: "appointment list"
  sc_appointmentTypes :: "appointmentType list"
  sc_toasts :: "toast list"

definition message_or_unknown :: "string \<Rightarrow> string" where
  \<comment> \<open>\<open>error.message || 'Ocorreu um erro desconhecido'\<close>\<close>
  "message_or_unknown msg = (if msg \<noteq> [] then msg else ''Ocorreu um erro desconhecido'')"

definition add_toast :: "toast \<Rightarrow> scheduling \<Rightarrow> scheduling" where
  "add_toast t w = w\<lparr>sc_toasts := sc_toasts w @ [t]\<rparr>"

definition issue :: "request \<Rightarrow> scheduling \<Rightarrow> scheduling" where
  "issue r w = w\<lparr>sc_requests := sc_requests w @ [r]\<rparr>"

definition fetchAppointmentTypes :: "(request \<Rightarrow> string option) \<Rightarrow> scheduling \<Rightarrow> scheduling" where
  "fetchAppointmentTypes fails w =
     (case sc_currentUser w of
        None \<Rightarrow> w
      | Some uid \<Rightarrow>
          (let w1 = issue (SelectAppointmentTypes uid) w
           in case fails (SelectAppointmentTypes uid) of
                Some msg \<Rightarrow>
                  add_toast \<lparr>title = ''Erro ao carregar tipos de consulta'',
                             description = message_or_unknown msg, destructive = True\<rparr> w1
              | None \<Rightarrow>
                  w1\<lparr>sc_appointmentTypes :=
                       filter (\<lambda>t. t_user_id t = uid) (sv_appointment_types (sc_service w1))\<rparr>))"

definition fetchAppointments_scheduling ::
  "(request \<Rightarrow> string option) \<Rightarrow> scheduling \<Rightarrow> scheduling" where
  "fetchAppointments_scheduling fails w =
     (case sc_currentUser w of
        None \<Rightarrow> w
      | Some uid \<Rightarrow>
          (let w1 = issue (SelectAppointments uid) w
           in case fails (SelectAppointments uid) of
                Some msg \<Rightarrow>
                  add_toast \<lparr>title = ''Erro ao carregar consultas'', description = msg,
                             destructive = True\<rparr> w1
              | None \<Rightarrow>
                  w1\<lparr>sc_appointments :=
                       map appointment.truncate
                         (filter (\<lambda>a. a_user_id a = uid) (sv_appointments (sc_service w1)))\<rparr>))"

subsection \<open>handleDeleteAppointmentType\<close>

definition in_use_toast :: toast where
  "in_use_toast =
     \<lparr>title = ''N'' @ [char_of (227 :: nat)] @ ''o '' @ [char_of (233 :: nat)] @ '' poss'' @
              [char_of (237 :: nat)] @ ''vel excluir o tipo de consulta'',
      description = ''Existem consultas agendadas com este tipo. '' @
                    ''Remova ou altere essas consultas primeiro.'',
      destructive = True\<rparr>"

definition deleted_toast :: toast where
  "deleted_toast =
     \<lparr>title = ''Tipo de consulta exclu'' @ [char_of (237 :: nat)] @ ''do com sucesso'',
      description = [], destructive = False\<rparr>"

definition delete_failed_toast :: "string \<Rightarrow> toast" where
  \<comment> \<open>the \<open>catch\<close> block\<close>
  "delete_failed_toast msg =
     \<lparr>title = ''Erro ao excluir tipo de consulta'', description = message_or_unknown msg,
      destructive = True\<rparr>"

definition appointmentsUsingType :: "string \<Rightarrow> service \<Rightarrow> string list" where
  \<comment> \<open>\<open>select('id').eq('appointment_type_id', typeId).limit(1)\<close>\<close>
  "appointmentsUsingType typeId sv =
     take 1 (map a_id (filter (\<lambda>a. a_appointment_type_id a = Some typeId) (sv_appointments sv)))"

definition delete_type :: "string \<Rightarrow> service \<Rightarrow> service" where
  \<comment> \<open>\<open>from('appointment_types').delete().eq('id', typeId)\<close>\<close>
  "delete_type typeId sv =
     sv\<lparr>sv_appointment_types := filter (\<lambda>t. t_id t \<noteq> typeId) (sv_appointment_types sv)\<rparr>"

definition handleDeleteAppointmentType ::
  "(request \<Rightarrow> string option) \<Rightarrow> string \<Rightarrow> scheduling \<Rightarrow> scheduling" where
  "handleDeleteAppointmentType fails typeId w =
     (let w1 = issue (SelectAppointmentsUsingType typeId) w
      in case fails (SelectAppointmentsUsingType typeId) of
           Some checkError \<Rightarrow> add_toast (delete_failed_toast checkError) w1
         | None \<Rightarrow>
             if length (appointmentsUsingType typeId (sc_service w1)) > 0
             then add_toast in_use_toast w1
             else
               (let w2 = issue (DeleteAppointmentType typeId) w1
                in case fails (DeleteAppointmentType typeId) of
                     Some error \<Rightarrow> add_toast (delete_failed_toast error) w2
                   | None \<Rightarrow>
                       fetchAppointments_scheduling fails
                         (fetchAppointmentTypes fails
                            (add_toast deleted_toast
                               (w2\<lparr>sc_service := delete_type typeId (sc_service w2)\<rparr>)))))"

section \<open>ChangePassword\<close>

record passwordFormData =
  currentPassword :: string
  newPassword :: string
  confirmPassword :: string

definition passwordSchema :: "passwordFormData \<Rightarrow> bool" where
  \<comment> \<open>whether the data passes: three \<open>min(6)\<close> and the refinement\<close>
  "passwordSchema data =
     (6 \<le> length (currentPassword data) \<and> 6 \<le> length (newPassword data) \<and>
      6 \<le> length (confirmPassword data) \<and> newPassword data = confirmPassword data)"

datatype auth_request = UpdateUser string

record changePassword =
  cp_requests :: "auth_request list"
  cp_isLoading :: bool
  cp_successMessage :: string
  cp_toasts :: "toast list"
  cp_formResets :: nat

text \<open>
  \<open>onSubmit\<close> with the outcome of \<open>supabase.auth.updateUser\<close> (\<open>Some\<close> message for an
  error). The request carries the single field \<open>password\<close>. \<open>reset()\<close> empties the fields
  of the form, which the state counts in \<open>cp_formResets\<close>.
\<close>

definition onSubmit :: "string option \<Rightarrow> passwordFormData \<Rightarrow> changePassword \<Rightarrow> changePassword" where
  "onSubmit outcome data st =
     (let st1 = st\<lparr>cp_isLoading := True, cp_successMessage := [],
                   cp_requests := cp_requests st @ [UpdateUser (newPassword data)]\<rparr>;
          st2 = (case outcome of
                   Some msg \<Rightarrow>
                     st1\<lparr>cp_toasts := cp_toasts st1 @
                            [\<lparr>title = ''Erro ao alterar senha'', description = msg,
                              destructive = True\<rparr>]\<rparr>
                 | None \<Rightarrow>
                     st1\<lparr>cp_successMessage := ''Senha alterada com sucesso!'',
                         cp_toasts := cp_toasts st1 @
                            [\<lparr>title = ''Senha alterada com sucesso'',
                              description = ''Sua senha foi atualizada.'', destructive = False\<rparr>],
                         cp_formResets := Suc (cp_formResets st1)\<rparr>)
      in st2\<lparr>cp_isLoading := False\<rparr>)"

definition handleSubmit ::
  "string option \<Rightarrow> passwordFormData \<Rightarrow> changePassword \<Rightarrow> changePassword" where
  \<comment> \<open>react-hook-form calls \<open>onSubmit\<close> only with data that the resolver accepts\<close>
  "handleSubmit outcome data st = (if passwordSchema data then onSubmit outcome data st else st)"

section \<open>Vocabulary of the properties\<close>

definition first_seen :: "'a list \<Rightarrow> 'a list" where
  \<comment> \<open>the distinct elements in the order of their first occurrence\<close>
  "first_seen xs = rev (remdups (rev xs))"

definition records_of :: "string \<Rightarrow> appointmentWithPatient list \<Rightarrow> appointmentWithPatient list" where
  "records_of k apps = filter (\<lambda>a. app_patientName a = k) apps"

definition float_sum :: "number list \<Rightarrow> number" where
  \<comment> \<open>\<open>0 + v\<^sub>1 + \<dots> + v\<^sub>n\<close> from left to right, each \<open>+\<close> rounded\<close>
  "float_sum vs = foldl num_add (Finite 0) vs"

definition group_of :: "appointmentWithPatient list \<Rightarrow> string \<Rightarrow> patientTotal" where
  "group_of apps k =
     \<lparr>patientName = k,
      totalValue = float_sum (map app_value (records_of k apps)),
      appointments = records_of k apps\<rparr>"

definition groups_of :: "appointmentWithPatient list \<Rightarrow> patientTotal object" where
  "groups_of apps = map (\<lambda>k. (k, group_of apps k)) (first_seen (map app_patientName apps))"

definition names_safe :: "appointmentWithPatient list \<Rightarrow> bool" where
  \<comment> \<open>no record is named like a property of \<open>Object.prototype\<close>\<close>
  "names_safe apps = list_all (\<lambda>a. app_patientName a \<notin> set object_prototype_keys) apps"

definition decimal_shown :: "number \<Rightarrow> bool" where
  \<comment> \<open>\<open>toFixed(2)\<close> prints the number as a decimal with two digits\<close>
  "decimal_shown x = (case x of Finite r \<Rightarrow> \<bar>r\<bar> < 10 ^ 21 | _ \<Rightarrow> False)"

definition shown_cents :: "number \<Rightarrow> int" where
  \<comment> \<open>the amount that \<open>toFixed(2)\<close> prints, in cents\<close>
  "shown_cents x = (case x of Finite r \<Rightarrow> signed_cents r | _ \<Rightarrow> 0)"

definition rounding_consistent :: "patientTotal list \<Rightarrow> number \<Rightarrow> bool" where
  \<comment> \<open>the displayed subtotals add up to the displayed grand total\<close>
  "rounding_consistent gs t =
     (decimal_shown t \<and> list_all (\<lambda>g. decimal_shown (totalValue g)) gs \<and>
      sum_list (map (\<lambda>g. shown_cents (totalValue g)) gs) = shown_cents t)"

definition whole_cents :: "number \<Rightarrow> bool" where
  \<comment> \<open>a double within \<open>2\<^sup>-\<^sup>3\<^sup>3\<close> of a whole, non-negative number of cents\<close>
  "whole_cents v =
     (case v of Finite r \<Rightarrow> \<bar>r - of_nat (cents r) / 100\<bar> \<le> 1 / 2 ^ 33 | _ \<Rightarrow> False)"

definition cents_of :: "number \<Rightarrow> nat" where
  "cents_of v = (case v of Finite r \<Rightarrow> cents r | _ \<Rightarrow> 0)"

definition cents_input :: "appointmentWithPatient list \<Rightarrow> bool" where
  \<comment> \<open>at most a million records of whole cents that add up to at most 1 000 000.00\<close>
  "cents_input apps =
     (list_all (\<lambda>a. whole_cents (app_value a)) apps \<and> length apps \<le> 1000000 \<and>
      sum_list (map (\<lambda>a. cents_of (app_value a)) apps) \<le> 100000000)"

definition type_in_use :: "string \<Rightarrow> service \<Rightarrow> bool" where
  \<comment> \<open>at least one appointment references the type\<close>
  "type_in_use typeId sv = list_ex (\<lambda>a. a_appointment_type_id a = Some typeId) (sv_appointments sv)"

section \<open>Sample inputs\<close>

definition appt :: "string \<Rightarrow> string \<Rightarrow> string \<Rightarrow> rat \<Rightarrow> appointmentWithPatient" where
  "appt i d n v = \<lparr>app_id = i, app_date = d, app_patientName = n, app_value = Finite v\<rparr>"

definition spec_example :: "appointmentWithPatient list" where
  \<comment> \<open>Ana 100.00, Ana 50.50, Bruno 75.25\<close>
  "spec_example =
     [appt ''1'' ''2024-03-04'' ''Ana'' 100, appt ''2'' ''2024-03-11'' ''Ana'' (101 / 2),
      appt ''3'' ''2024-03-12'' ''Bruno'' (301 / 4)]"

definition eighths :: "appointmentWithPatient list" where
  \<comment> \<open>Ana 0.125, Bruno 0.125\<close>
  "eighths = [appt ''1'' ''2024-03-04'' ''Ana'' (1 / 8), appt ''2'' ''2024-03-05'' ''Bruno'' (1 / 8)]"

definition drift :: "appointmentWithPatient list" where
  \<comment> \<open>Ana 9007199254740992.00 (\<open>2\<^sup>5\<^sup>3\<close>), Bruno 1.00\<close>
  "drift = [appt ''1'' ''2024-03-04'' ''Ana'' 9007199254740992, appt ''2'' ''2024-03-05'' ''Bruno'' 1]"

definition sample_host :: host where
  \<comment> \<open>a browser in UTC, in March 2024\<close>
  "sample_host =
     \<lparr>number_toString = (\<lambda>r. ''1e+21''), Date_parse = (\<lambda>s. InvalidDate),
      utc_offset = (\<lambda>c minute. 0), current_month = March, current_year = 2024\<rparr>"

definition sao_paulo :: host where
  \<comment> \<open>a browser in America/Sao_Paulo, three hours behind UTC, in March 2024\<close>
  "sao_paulo =
     \<lparr>number_toString = (\<lambda>r. ''1e+21''), Date_parse = (\<lambda>s. InvalidDate),
      utc_offset = (\<lambda>c minute. - 180), current_month = March, current_year = 2024\<rparr>"

definition ana_march_4 :: report_state where
  \<comment> \<open>the report of the single appointment of Ana on 2024-03-04, value 100.00\<close>
  "ana_march_4 =
     initial_report
       \<lparr>rs_appointments := [appt ''1'' ''2024-03-04'' ''Ana'' 100],
        rs_patientTotals :=
          [\<lparr>patientName = ''Ana'', totalValue = Finite 100,
            appointments = [appt ''1'' ''2024-03-04'' ''Ana'' 100]\<rparr>],
        rs_totalValue := Finite 100, rs_isLoading := False\<rparr>"

definition ana_row :: report_row where
  "ana_row = \<lparr>rr_id = ''a1'', rr_date = ''2024-03-04'', rr_value = Some (Finite 150),
              rr_patients = Some \<lparr>pj_name = ''Ana''\<rparr>\<rparr>"

definition orphan_row :: report_row where
  "orphan_row = \<lparr>rr_id = ''a2'', rr_date = ''2024-03-05'', rr_value = Some (Finite 150),
                 rr_patients = None\<rparr>"

definition unnamed_row :: report_row where
  "unnamed_row = \<lparr>rr_id = ''a3'', rr_date = ''2024-03-06'', rr_value = Some (Finite 150),
                  rr_patients = Some \<lparr>pj_name = []\<rparr>\<rparr>"

definition consulta_padrao :: appointmentType where
  "consulta_padrao =
     \<lparr>t_id = ''t1'', t_name = ''Consulta Padr'' @ [char_of (227 :: nat)] @ ''o'',
      t_value = Finite 150, t_user_id = ''u1''\<rparr>"

definition appointment_of :: "string \<Rightarrow> patient_ref option \<Rightarrow> appointment_row" where
  \<comment> \<open>an appointment of user \<open>u1\<close> of type \<open>t1\<close> with the given id and joined patient\<close>
  "appointment_of i p =
     \<lparr>a_id = i, a_patient_id = ''p1'', a_date = ''2024-03-04'', a_time = ''09:00:00'',
      a_value = Finite 150, a_appointment_type_id = Some ''t1'', a_patient = p,
      a_appointment_type = Some \<lparr>tr_id = ''t1'', tr_name = ''Consulta'', tr_value = Finite 150\<rparr>,
      a_user_id = ''u1''\<rparr>"

definition clinic :: "appointment_row list \<Rightarrow> scheduling" where
  \<comment> \<open>user \<open>u1\<close> with the type \<open>t1\<close> and the given appointments, all fetched\<close>
  "clinic rows =
     \<lparr>sc_service = \<lparr>sv_appointments = rows, sv_appointment_types = [consulta_padrao]\<rparr>,
      sc_requests = [], sc_currentUser = Some ''u1'',
      sc_appointments = map appointment.truncate rows,
      sc_appointmentTypes = [consulta_padrao], sc_toasts = []\<rparr>"

definition never_fails :: "request \<Rightarrow> string option" where
  "never_fails r = None"

definition check_fails :: "request \<Rightarrow> string option" where
  "check_fails r =
     (case r of SelectAppointmentsUsingType t \<Rightarrow> Some ''Failed to fetch'' | _ \<Rightarrow> None)"

definition delete_fails :: "request \<Rightarrow> string option" where
  "delete_fails r =
     (case r of DeleteAppointmentType t \<Rightarrow> Some ''Failed to fetch'' | _ \<Rightarrow> None)"

definition signed_out :: "scheduling \<Rightarrow> scheduling" where
  \<comment> \<open>the same page once the session has ended\<close>
  "signed_out w = w\<lparr>sc_currentUser := None\<rparr>"

definition submission :: "string \<Rightarrow> passwordFormData" where
  "submission current =
     \<lparr>currentPassword = current, newPassword = ''new-secret'', confirmPassword = ''new-secret''\<rparr>"

definition idle_form :: changePassword where
  "idle_form =
     \<lparr>cp_requests = [], cp_isLoading = False, cp_successMessage = [], cp_toasts = [],
      cp_formResets = 0\<rparr>"

section \<open>Rounding to a double\<close>

lemma pow2_powi: "pow2 e = 2 powi e"
  by (simp add: pow2_def power_int_def inverse_eq_divide power_one_over)

lemma pow2_pos [simp]: "0 < pow2 e"
  by (simp add: pow2_def)

lemma pow2_nonzero [simp]: "pow2 e \<noteq> 0"
  by (simp add: pow2_def)

lemma pow2_add: "pow2 (a + b) = pow2 a * pow2 b"
  by (simp add: pow2_powi power_int_add)

lemma pow2_mono: "a \<le> b \<Longrightarrow> pow2 a \<le> pow2 b"
  by (simp add: pow2_powi power_int_increasing)

lemma pow2_less_cancel: "pow2 a < pow2 b \<Longrightarrow> a < b"
  using pow2_mono [of b a] by (cases "a < b") auto

lemma ilog2_le:
  assumes "0 < x"
  shows "pow2 (ilog2 x) \<le> x"
proof -
  obtain p q where pq: "quotient_of x = (p, q)" by (cases "quotient_of x")
  then have q: "0 < q" and x: "x = of_int p / of_int q"
    using quotient_of_denom_pos [OF pq] quotient_of_div [OF pq] by auto
  have p: "0 < p" using assms q x by (simp add: zero_less_divide_iff)
  let ?d = "bitlen p - bitlen q"
  show ?thesis
  proof (cases "pow2 ?d \<le> x")
    case True
    then show ?thesis by (simp add: ilog2_def pq)
  next
    case False
    have bp: "2 ^ nat (bitlen p - 1) \<le> p" using bitlen_bounds [OF p] by simp
    have bq: "q < 2 ^ nat (bitlen q)" using bitlen_bounds [OF q] by simp
    have p1: "1 \<le> bitlen p" using p by (simp add: bitlen_alt_def)
    have q1: "0 \<le> bitlen q" by (rule bitlen_nonneg)
    have "pow2 (bitlen p - 1) \<le> of_int p"
    proof -
      have "pow2 (bitlen p - 1) = of_int (2 ^ nat (bitlen p - 1))"
        using p1 by (simp add: pow2_def)
      also have "\<dots> \<le> of_int p" using bp by (simp only: of_int_le_iff)
      finally show ?thesis .
    qed
    moreover have "of_int q \<le> pow2 (bitlen q)"
    proof -
      have "q \<le> 2 ^ nat (bitlen q)" using bq by simp
      then have "(of_int q :: rat) \<le> of_int (2 ^ nat (bitlen q))"
        by (simp only: of_int_le_iff)
      also have "\<dots> = pow2 (bitlen q)" using q1 by (simp add: pow2_def)
      finally show ?thesis .
    qed
    ultimately have "pow2 (bitlen p - 1) / pow2 (bitlen q) \<le> of_int p / of_int q"
      using q p by (intro frac_le) simp_all
    moreover have "pow2 (?d - 1) = pow2 (bitlen p - 1) / pow2 (bitlen q)"
      by (simp add: pow2_powi power_int_diff)
    ultimately have "pow2 (?d - 1) \<le> x" using x by simp
    with False show ?thesis by (simp add: ilog2_def pq)
  qed
qed

lemma round_half_even_of_int [simp]: "round_half_even (of_int n) = n"
  by (simp add: round_half_even_def)

lemma round_half_even_error: "\<bar>of_int (round_half_even r) - r\<bar> \<le> 1 / 2"
proof -
  have "of_int \<lfloor>r\<rfloor> \<le> r" "r < of_int \<lfloor>r\<rfloor> + 1" by linarith+
  then show ?thesis
    unfolding round_half_even_def Let_def
    by (simp add: abs_if not_less) linarith
qed

lemma to_double_exact:
  assumes x: "x = of_int m * pow2 k" and m: "\<bar>m\<bar> < 2 ^ 53" and k: "- 1074 \<le> k"
    and fin: "\<bar>x\<bar> < pow2 1024"
  shows "to_double x = Finite x"
proof (cases "x = 0")
  case True
  then show ?thesis by (simp add: to_double_def)
next
  case False
  define e where "e = max (ilog2 \<bar>x\<bar>) (- 1022) - 52"
  have "pow2 (ilog2 \<bar>x\<bar>) \<le> \<bar>x\<bar>" using False by (intro ilog2_le) simp
  also have "\<bar>x\<bar> = of_int \<bar>m\<bar> * pow2 k" by (simp add: x abs_mult abs_of_pos)
  also have "\<dots> < of_int (2 ^ 53) * pow2 k"
    using m by (intro mult_strict_right_mono) (simp_all only: of_int_less_iff pow2_pos)
  also have "of_int (2 ^ 53) * pow2 k = pow2 (53 + k)"
  proof -
    have "(of_int (2 ^ 53) :: rat) = pow2 53" by (simp add: pow2_def)
    then show ?thesis by (simp only: pow2_add)
  qed
  finally have "ilog2 \<bar>x\<bar> < 53 + k" by (rule pow2_less_cancel)
  then have ek: "e \<le> k" using k by (simp add: e_def)
  have "x / pow2 e = of_int m * (pow2 k / pow2 e)" by (simp add: x)
  also have "pow2 k / pow2 e = pow2 (k - e)" by (simp add: pow2_powi power_int_diff)
  also have "\<dots> = of_int (2 ^ nat (k - e))" using ek by (simp add: pow2_def)
  finally have q: "x / pow2 e = of_int (m * 2 ^ nat (k - e))" by simp
  have "of_int (round_half_even (x / pow2 e)) * pow2 e = x / pow2 e * pow2 e"
    by (simp only: q round_half_even_of_int)
  also have "\<dots> = x" by simp
  finally show ?thesis
    using False fin by (simp add: to_double_def Let_def e_def [symmetric] not_le)
qed

lemma to_double_error:
  assumes "\<bar>x\<bar> < pow2 b" and "- 1021 \<le> b" and "b \<le> 1023"
  shows "\<exists>y. to_double x = Finite y \<and> \<bar>y - x\<bar> \<le> pow2 (b - 54)"
proof (cases "x = 0")
  case True
  then show ?thesis by (simp add: to_double_def less_imp_le)
next
  case False
  define e where "e = max (ilog2 \<bar>x\<bar>) (- 1022) - 52"
  define y where "y = of_int (round_half_even (x / pow2 e)) * pow2 e"
  have "pow2 (ilog2 \<bar>x\<bar>) \<le> \<bar>x\<bar>" using False by (intro ilog2_le) simp
  also note assms(1)
  finally have "ilog2 \<bar>x\<bar> < b" by (rule pow2_less_cancel)
  then have eb: "e \<le> b - 53" using assms(2) by (simp add: e_def)
  have "y - x = (of_int (round_half_even (x / pow2 e)) - x / pow2 e) * pow2 e"
    by (simp add: y_def left_diff_distrib)
  then have "\<bar>y - x\<bar> = \<bar>of_int (round_half_even (x / pow2 e)) - x / pow2 e\<bar> * pow2 e"
    by (simp only: abs_mult abs_of_pos [OF pow2_pos])
  also have "\<dots> \<le> 1 / 2 * pow2 e"
    by (intro mult_right_mono round_half_even_error) (simp add: less_imp_le)
  also have "\<dots> = pow2 (e - 1)" by (simp add: pow2_powi power_int_diff)
  also have "\<dots> \<le> pow2 (b - 54)" using eb by (intro pow2_mono) simp
  finally have err: "\<bar>y - x\<bar> \<le> pow2 (b - 54)" .
  have "\<bar>y\<bar> \<le> \<bar>x\<bar> + \<bar>y - x\<bar>" by simp
  also have "\<dots> < pow2 b + pow2 (b - 54)" using assms(1) err by simp
  also have "\<dots> \<le> pow2 b + pow2 b" by (simp add: pow2_mono)
  also have "\<dots> = pow2 (b + 1)"
  proof -
    have "pow2 1 = 2" by (simp add: pow2_def)
    then show ?thesis by (simp add: pow2_add)
  qed
  also have "\<dots> \<le> pow2 1024" using assms(3) by (intro pow2_mono) simp
  finally have "\<bar>y\<bar> < pow2 1024" .
  then have "to_double x = Finite y"
    using False by (simp add: to_double_def Let_def e_def [symmetric] y_def [symmetric] not_le)
  with err show ?thesis by simp
qed

section \<open>The reduction of calculateTotals\<close>

text \<open>
  After any prefix of the input that has no name of \<open>Object.prototype\<close>, the accumulator
  holds one group per name seen, in the order of first occurrence, each with the records
  of its name and their running sum. A record with a name of \<open>Object.prototype\<close> ends
  the reduction with a \<open>TypeError\<close>.
\<close>

lemma first_seen_snoc:
  "first_seen (xs @ [x]) = (if x \<in> set xs then first_seen xs else first_seen xs @ [x])"
  by (simp add: first_seen_def)

lemma set_first_seen [simp]: "set (first_seen xs) = set xs"
  by (simp add: first_seen_def)

lemma distinct_first_seen [simp]: "distinct (first_seen xs)"
  by (simp add: first_seen_def)

lemma reduce_snoc:
  "reduce f (xs @ [x]) acc = (case reduce f xs acc of Inl e \<Rightarrow> Inl e | Inr a \<Rightarrow> f a x)"
  by (induction xs arbitrary: acc) (auto split: sum.splits)

lemma map_of_tabulate:
  "map_of (map (\<lambda>k. (k, f k)) ks) k = (if k \<in> set ks then Some (f k) else None)"
  by (induction ks) auto

lemma set_prop_fresh:
  "k \<notin> set ks \<Longrightarrow> set_prop (map (\<lambda>k. (k, f k)) ks) k v = map (\<lambda>k. (k, f k)) ks @ [(k, v)]"
  by (induction ks) auto

lemma set_prop_present:
  "k \<in> set ks \<Longrightarrow> distinct ks \<Longrightarrow>
   set_prop (map (\<lambda>j. (j, f j)) ks) k v = map (\<lambda>j. (j, if j = k then v else f j)) ks"
  by (induction ks) auto

lemma set_prop_last:
  "k \<notin> set ks \<Longrightarrow>
   set_prop (map (\<lambda>k. (k, f k)) ks @ [(k, w)]) k v = map (\<lambda>k. (k, f k)) ks @ [(k, v)]"
  by (induction ks) auto

lemma float_sum_snoc: "float_sum (vs @ [v]) = num_add (float_sum vs) v"
  by (simp add: float_sum_def)

lemma group_of_snoc_other:
  "app_patientName x \<noteq> k \<Longrightarrow> group_of (xs @ [x]) k = group_of xs k"
  by (simp add: group_of_def records_of_def)

lemma group_of_snoc_same:
  "group_of (xs @ [x]) (app_patientName x) =
   (group_of xs (app_patientName x))
     \<lparr>totalValue := num_add (totalValue (group_of xs (app_patientName x))) (app_value x),
      appointments := appointments (group_of xs (app_patientName x)) @ [x]\<rparr>"
  by (simp add: group_of_def records_of_def float_sum_snoc)

lemma group_of_unseen:
  "k \<notin> app_patientName ` set xs \<Longrightarrow>
   group_of xs k = \<lparr>patientName = k, totalValue = Finite 0, appointments = []\<rparr>"
proof -
  assume "k \<notin> app_patientName ` set xs"
  then have "records_of k xs = []"
    by (auto simp: records_of_def filter_empty_conv)
  then show ?thesis by (simp add: group_of_def float_sum_def)
qed

lemma reducer_groups_of:
  assumes "app_patientName x \<notin> set object_prototype_keys"
  shows "reducer (groups_of xs) x = Inr (groups_of (xs @ [x]))"
proof (cases "app_patientName x \<in> app_patientName ` set xs")
  case True
  let ?k = "app_patientName x"
  let ?ks = "first_seen (map app_patientName xs)"
  have in_ks: "?k \<in> set ?ks" using True by simp
  have get: "get_prop (groups_of xs) ?k = Own (group_of xs ?k)"
    using in_ks by (simp add: get_prop_def groups_of_def map_of_tabulate)
  have "reducer (groups_of xs) x =
        Inr (set_prop (groups_of xs) ?k (group_of (xs @ [x]) ?k))"
    by (simp add: reducer_def Let_def get truthy_def group_of_snoc_same)
  also have "set_prop (groups_of xs) ?k (group_of (xs @ [x]) ?k) =
        map (\<lambda>j. (j, if j = ?k then group_of (xs @ [x]) ?k else group_of xs j)) ?ks"
    unfolding groups_of_def using in_ks by (simp add: set_prop_present)
  also have "\<dots> = map (\<lambda>j. (j, group_of (xs @ [x]) j)) ?ks"
    by (rule map_cong) (auto simp: group_of_snoc_other)
  also have "\<dots> = groups_of (xs @ [x])"
    using True by (simp add: groups_of_def first_seen_snoc)
  finally show ?thesis .
next
  case False
  let ?k = "app_patientName x"
  let ?ks = "first_seen (map app_patientName xs)"
  let ?new = "\<lparr>patientName = ?k, totalValue = Finite 0, appointments = []\<rparr>"
  have notin: "?k \<notin> set ?ks" using False by simp
  have get: "get_prop (groups_of xs) ?k = Absent"
    using notin assms by (simp add: get_prop_def groups_of_def map_of_tabulate)
  have created: "set_prop (groups_of xs) ?k ?new = groups_of xs @ [(?k, ?new)]"
    unfolding groups_of_def using notin by (simp add: set_prop_fresh)
  have get1: "get_prop (groups_of xs @ [(?k, ?new)]) ?k = Own ?new"
    using notin by (simp add: get_prop_def groups_of_def map_of_tabulate map_add_def)
  have upd: "set_prop (groups_of xs @ [(?k, ?new)]) ?k v = groups_of xs @ [(?k, v)]" for v
    using notin unfolding groups_of_def by (simp add: set_prop_last)
  have same: "group_of (xs @ [x]) ?k =
      ?new\<lparr>totalValue := num_add (Finite 0) (app_value x), appointments := [x]\<rparr>"
    using False by (simp add: group_of_snoc_same group_of_unseen)
  have step: "reducer (groups_of xs) x = Inr (groups_of xs @ [(?k, group_of (xs @ [x]) ?k)])"
    by (simp add: reducer_def Let_def get truthy_def created get1 upd same)
  have "group_of (xs @ [x]) j = group_of xs j" if "j \<in> set ?ks" for j
    using that notin by (intro group_of_snoc_other) auto
  then have "groups_of xs = map (\<lambda>j. (j, group_of (xs @ [x]) j)) ?ks"
    by (simp add: groups_of_def)
  then have "groups_of xs @ [(?k, group_of (xs @ [x]) ?k)] = groups_of (xs @ [x])"
    using False by (simp add: groups_of_def first_seen_snoc)
  with step show ?thesis by simp
qed

lemma reduce_groups_of:
  "\<forall>a\<in>set apps. app_patientName a \<notin> set object_prototype_keys \<Longrightarrow>
   reduce reducer apps [] = Inr (groups_of apps)"
proof (induction apps rule: rev_induct)
  case Nil
  show ?case by (simp add: groups_of_def first_seen_def)
next
  case (snoc x xs)
  then show ?case by (simp add: reduce_snoc reducer_groups_of)
qed

lemma reducer_builtin:
  assumes "app_patientName x \<in> set object_prototype_keys"
    and "\<forall>a\<in>set xs. app_patientName a \<notin> set object_prototype_keys"
  shows "reducer (groups_of xs) x = Inl TypeError"
proof -
  have "app_patientName x \<notin> set (first_seen (map app_patientName xs))"
    using assms by auto
  then have "get_prop (groups_of xs) (app_patientName x) = Builtin"
    using assms(1) by (simp add: get_prop_def groups_of_def map_of_tabulate)
  then show ?thesis by (simp add: reducer_def truthy_def)
qed

lemma reduce_Inl_append:
  "reduce f xs acc = Inl e \<Longrightarrow> reduce f (xs @ ys) acc = Inl e"
  by (induction xs arbitrary: acc) (auto split: sum.splits)

lemma reduce_throws:
  assumes "\<exists>a\<in>set apps. app_patientName a \<in> set object_prototype_keys"
  shows "reduce reducer apps [] = Inl TypeError"
proof -
  from split_list_first_prop [OF assms] obtain xs x ys where split: "apps = xs @ x # ys"
    and x: "app_patientName x \<in> set object_prototype_keys"
    and xs: "\<forall>a\<in>set xs. \<not> app_patientName a \<in> set object_prototype_keys"
    by blast
  have "reduce reducer xs [] = Inr (groups_of xs)"
    using xs by (intro reduce_groups_of) simp
  moreover have "reducer (groups_of xs) x = Inl TypeError"
    using x xs by (intro reducer_builtin) simp_all
  ultimately have "reduce reducer (xs @ [x]) [] = Inl TypeError"
    by (simp add: reduce_snoc)
  then have "reduce reducer ((xs @ [x]) @ ys) [] = Inl TypeError"
    by (rule reduce_Inl_append)
  then show ?thesis by (simp add: split)
qed

lemma insort_key_tabulate:
  "insort_key (\<lambda>p. g (fst p)) (k, f k) (map (\<lambda>k. (k, f k)) ks) =
   map (\<lambda>k. (k, f k)) (insort_key g k ks)"
  by (induction ks) auto

lemma sort_key_tabulate:
  "sort_key (\<lambda>p. g (fst p)) (map (\<lambda>k. (k, f k)) ks) = map (\<lambda>k. (k, f k)) (sort_key g ks)"
  by (induction ks) (auto simp: insort_key_tabulate)

lemma filter_tabulate:
  "filter (\<lambda>p. P (fst p)) (map (\<lambda>k. (k, f k)) ks) = map (\<lambda>k. (k, f k)) (filter P ks)"
  by (induction ks) auto

lemma object_values_tabulate:
  "object_values (map (\<lambda>k. (k, f k)) ks) = map f (key_order ks)"
proof -
  have "filter (\<lambda>p. \<not> is_array_index (fst p)) (map (\<lambda>k. (k, f k)) ks) =
        map (\<lambda>k. (k, f k)) (filter (\<lambda>k. \<not> is_array_index k) ks)"
    by (rule filter_tabulate)
  then show ?thesis
    by (simp add: object_values_def key_order_def filter_tabulate sort_key_tabulate comp_def)
qed

lemma calculateTotals_safe:
  assumes "names_safe apps"
  shows "calculateTotals apps =
         Inr (map (group_of apps) (key_order (first_seen (map app_patientName apps))),
              sum_totals (map (group_of apps) (key_order (first_seen (map app_patientName apps)))))"
proof -
  have "reduce reducer apps [] = Inr (groups_of apps)"
    using assms by (intro reduce_groups_of) (simp add: names_safe_def list_all_iff)
  then show ?thesis
    by (simp add: calculateTotals_def groups_of_def object_values_tabulate Let_def)
qed

lemma calculateTotals_unsafe:
  assumes "\<not> names_safe apps"
  shows "calculateTotals apps = Inl TypeError"
proof -
  have "reduce reducer apps [] = Inl TypeError"
    using assms by (intro reduce_throws) (simp add: names_safe_def list_all_iff)
  then show ?thesis by (simp add: calculateTotals_def)
qed

section \<open>Sums of sample values\<close>

lemma to_double_100: "to_double 100 = Finite 100"
  using to_double_exact [of 100 100 0] by (simp add: pow2_def)

lemma to_double_50_50: "to_double (101 / 2) = Finite (101 / 2)"
  using to_double_exact [of "101 / 2" 101 "- 1"] by (simp add: pow2_def)

lemma to_double_150_50: "to_double (301 / 2) = Finite (301 / 2)"
  using to_double_exact [of "301 / 2" 301 "- 1"] by (simp add: pow2_def)

lemma to_double_75_25: "to_double (301 / 4) = Finite (301 / 4)"
  using to_double_exact [of "301 / 4" 301 "- 2"] by (simp add: pow2_def)

lemma to_double_225_75: "to_double (903 / 4) = Finite (903 / 4)"
  using to_double_exact [of "903 / 4" 903 "- 2"] by (simp add: pow2_def)

section \<open>The groups that calculateTotals returns\<close>

lemma first_seen_Cons: "first_seen (x # xs) = x # filter (\<lambda>y. y \<noteq> x) (first_seen xs)"
proof (induction xs rule: rev_induct)
  case Nil
  show ?case by (simp add: first_seen_def)
next
  case (snoc y ys)
  have "first_seen (x # ys @ [y]) = first_seen ((x # ys) @ [y])" by simp
  also have "\<dots> = (if y \<in> set (x # ys) then first_seen (x # ys) else first_seen (x # ys) @ [y])"
    by (rule first_seen_snoc)
  finally show ?case using snoc by (auto simp: first_seen_snoc)
qed

lemma set_key_order [simp]: "set (key_order ks) = set ks"
  by (auto simp: key_order_def)

lemma distinct_key_order [simp]: "distinct ks \<Longrightarrow> distinct (key_order ks)"
  by (auto simp: key_order_def)

lemma length_key_order [simp]: "length (key_order ks) = length ks"
proof -
  have "length (filter is_array_index ks) + length (filter (\<lambda>k. \<not> is_array_index k) ks) = length ks"
    by (rule sum_length_filter_compl)
  then show ?thesis by (simp add: key_order_def)
qed

lemma key_order_no_index: "list_all (\<lambda>k. \<not> is_array_index k) ks \<Longrightarrow> key_order ks = ks"
proof -
  assume a: "list_all (\<lambda>k. \<not> is_array_index k) ks"
  then have "filter is_array_index ks = []"
    by (simp add: list_all_iff filter_empty_conv)
  moreover have "filter (\<lambda>k. \<not> is_array_index k) ks = ks"
    using a by (simp add: list_all_iff)
  ultimately show ?thesis by (simp add: key_order_def)
qed

lemma patientName_group_of [simp]: "patientName (group_of apps k) = k"
  by (simp add: group_of_def)

lemma calculateTotals_one_group_per_name:
  assumes "names_safe apps"
  shows "\<exists>gs t. calculateTotals apps = Inr (gs, t) \<and>
           distinct (map patientName gs) \<and>
           set (map patientName gs) = app_patientName ` set apps \<and>
           length gs = card (app_patientName ` set apps) \<and>
           (\<forall>g\<in>set gs. totalValue g = float_sum (map app_value (records_of (patientName g) apps)))"
proof -
  define gs where "gs = map (group_of apps) (key_order (first_seen (map app_patientName apps)))"
  have c: "calculateTotals apps = Inr (gs, sum_totals gs)"
    using calculateTotals_safe [OF assms] by (simp add: gs_def)
  have n: "map patientName gs = key_order (first_seen (map app_patientName apps))"
    by (simp add: gs_def comp_def)
  have d: "distinct (map patientName gs)" by (simp add: n)
  have s: "set (map patientName gs) = app_patientName ` set apps" by (simp add: n)
  have "length gs = length (map patientName gs)" by simp
  also have "\<dots> = card (set (map patientName gs))" using d by (simp only: distinct_card)
  finally have l: "length gs = card (app_patientName ` set apps)" by (simp only: s)
  have v: "\<forall>g\<in>set gs. totalValue g = float_sum (map app_value (records_of (patientName g) apps))"
    by (auto simp: gs_def group_of_def)
  from c d s l v show ?thesis by (intro exI conjI)
qed

text \<open>
  The example of the specification: Ana 100.00 and 50.50, Bruno 75.25 give the groups Ana
  (150.50, two entries) and Bruno (75.25, one entry) and the grand total 225.75.
\<close>

lemma calculateTotals_spec_example:
  "calculateTotals spec_example =
     Inr ([\<lparr>patientName = ''Ana'', totalValue = Finite (301 / 2),
            appointments = [appt ''1'' ''2024-03-04'' ''Ana'' 100,
                            appt ''2'' ''2024-03-11'' ''Ana'' (101 / 2)]\<rparr>,
           \<lparr>patientName = ''Bruno'', totalValue = Finite (301 / 4),
            appointments = [appt ''3'' ''2024-03-12'' ''Bruno'' (301 / 4)]\<rparr>],
          Finite (903 / 4))"
  by (simp add: Let_def calculateTotals_def spec_example_def appt_def reducer_def get_prop_def
      truthy_def object_prototype_keys_def object_values_def is_array_index_def is_digit_def
      sum_totals_def to_double_100 to_double_50_50 to_double_150_50 to_double_75_25
      to_double_225_75)

lemma calculateTotals_empty: "calculateTotals [] = Inr ([], Finite 0)"
  by (simp add: calculateTotals_def object_values_def sum_totals_def)

lemma mset_concat_groups:
  "distinct ks \<Longrightarrow>
   mset (concat (map (\<lambda>k. filter (\<lambda>a. f a = k) xs) ks)) = mset (filter (\<lambda>a. f a \<in> set ks) xs)"
proof (induction ks)
  case Nil
  show ?case by simp
next
  case (Cons k ks)
  then have k: "k \<notin> set ks" by simp
  have "mset (filter (\<lambda>a. f a = k) xs) + mset (filter (\<lambda>a. f a \<in> set ks) xs) =
        mset (filter (\<lambda>a. f a \<in> set (k # ks)) xs)"
    using k by (induction xs) auto
  then show ?case using Cons by simp
qed

text \<open>
  For an input without a name of \<open>Object.prototype\<close> the groups partition the input: the
  records of a group are those of its name, in input order, its total is their sum from
  left to right, and the groups together hold every record exactly once.
\<close>

lemma calculateTotals_partition:
  assumes "names_safe apps"
  shows "\<exists>gs t. calculateTotals apps = Inr (gs, t) \<and>
           mset (concat (map appointments gs)) = mset apps \<and>
           (\<forall>g\<in>set gs. appointments g = records_of (patientName g) apps \<and>
                       totalValue g = float_sum (map app_value (appointments g)))"
proof -
  define ks where "ks = key_order (first_seen (map app_patientName apps))"
  define gs where "gs = map (group_of apps) ks"
  have c: "calculateTotals apps = Inr (gs, sum_totals gs)"
    using calculateTotals_safe [OF assms] by (simp add: gs_def ks_def)
  have "map appointments gs = map (\<lambda>k. filter (\<lambda>a. app_patientName a = k) apps) ks"
    by (simp add: gs_def group_of_def records_of_def)
  moreover have "distinct ks" "set ks = app_patientName ` set apps"
    by (simp_all add: ks_def)
  ultimately have "mset (concat (map appointments gs)) =
      mset (filter (\<lambda>a. app_patientName a \<in> app_patientName ` set apps) apps)"
    by (simp add: mset_concat_groups)
  also have "filter (\<lambda>a. app_patientName a \<in> app_patientName ` set apps) apps = apps"
    by (simp add: filter_id_conv)
  finally have m: "mset (concat (map appointments gs)) = mset apps" .
  have v: "\<forall>g\<in>set gs. appointments g = records_of (patientName g) apps \<and>
             totalValue g = float_sum (map app_value (appointments g))"
    by (auto simp: gs_def group_of_def)
  from c m v show ?thesis by (intro exI conjI)
qed

lemma calculateTotals_keeps_record:
  assumes "names_safe apps" and "a \<in> set apps"
  shows "\<exists>gs t g. calculateTotals apps = Inr (gs, t) \<and> g \<in> set gs \<and>
           patientName g = app_patientName a \<and> a \<in> set (appointments g)"
proof -
  define gs where "gs = map (group_of apps) (key_order (first_seen (map app_patientName apps)))"
  have c: "calculateTotals apps = Inr (gs, sum_totals gs)"
    using calculateTotals_safe [OF assms(1)] by (simp add: gs_def)
  have g: "group_of apps (app_patientName a) \<in> set gs"
    using assms(2) by (simp add: gs_def)
  have r: "a \<in> set (appointments (group_of apps (app_patientName a)))"
    using assms(2) by (simp add: group_of_def records_of_def)
  from c g r show ?thesis by (intro exI conjI) simp_all
qed

text \<open>
  The names reach \<open>calculateTotals\<close> as they are stored: the report of a month with an
  appointment of a patient named \<open>constructor\<close> ends in the uncaught \<open>TypeError\<close>, with
  no group set and the spinner still on.
\<close>

lemma fetchAppointments_constructor:
  "fetchAppointments
     (Data [\<lparr>rr_id = ''1'', rr_date = ''2024-03-04'', rr_value = Some (Finite 100),
             rr_patients = Some \<lparr>pj_name = ''constructor''\<rparr>\<rparr>]) initial_report =
   (initial_report\<lparr>rs_appointments := [appt ''1'' ''2024-03-04'' ''constructor'' 100]\<rparr>,
    Some TypeError)"
  by (simp add: fetchAppointments_def formattedAppointments_def has_patient_name_def
      format_row_def or_zero_def truthy_number_def initial_report_def appt_def
      calculateTotals_def reducer_def get_prop_def truthy_def object_prototype_keys_def)

section \<open>Claims about calculateTotals\<close>

text \<open>
  Claim C1: for every input the aggregator produces exactly one PatientTotal per distinct
  patientName, each with the sum of the values of the records of that name. The code
  misses the names that every object inherits from \<open>Object.prototype\<close>: for a patient
  named \<open>constructor\<close> the lookup \<open>acc[app.patientName]\<close> finds the built-in, no group is
  created, and \<open>calculateTotals\<close> throws a \<open>TypeError\<close> instead of returning the one
  group that the claim asks for. (\<open>calculateTotals_one_group_per_name\<close> and
  \<open>calculateTotals_spec_example\<close> show the claim on every other input.)
\<close>

theorem calculateTotals_constructor_throws:
  "calculateTotals [appt ''1'' ''2024-03-04'' ''constructor'' 100] = Inl TypeError"
  by (simp add: calculateTotals_def reducer_def get_prop_def truthy_def
      object_prototype_keys_def appt_def)

text \<open>
  Claim C4, as stated: the groups come in the order of first appearance of their names.
  It fails for a name that is an array index: \<open>Object.values\<close> lists the group of the
  patient named \<open>7\<close> before the group of Ana, whose record comes first in the input.
\<close>

theorem calculateTotals_order_counterexample:
  "calculateTotals [appt ''1'' ''2024-03-04'' ''Ana'' 100, appt ''2'' ''2024-03-05'' ''7'' (101 / 2)] =
     Inr ([\<lparr>patientName = ''7'', totalValue = Finite (101 / 2),
            appointments = [appt ''2'' ''2024-03-05'' ''7'' (101 / 2)]\<rparr>,
           \<lparr>patientName = ''Ana'', totalValue = Finite 100,
            appointments = [appt ''1'' ''2024-03-04'' ''Ana'' 100]\<rparr>],
          Finite (301 / 2))"
  by (simp add: Let_def calculateTotals_def appt_def reducer_def get_prop_def
      truthy_def object_prototype_keys_def object_values_def is_array_index_def is_digit_def
      parse_nat_def digit_value_def
      sum_totals_def to_double_100 to_double_50_50 to_double_150_50)

text \<open>
  Claim C4, amended: for an input without a name of \<open>Object.prototype\<close>, the groups whose
  name is an array index come first, in ascending numeric order, and the groups of all
  other names follow in the order of first appearance of their names in the input.
\<close>

theorem calculateTotals_order:
  assumes "names_safe apps"
  shows "\<exists>gs t. calculateTotals apps = Inr (gs, t) \<and>
           map patientName gs =
             sort_key parse_nat (filter is_array_index (first_seen (map app_patientName apps))) @
             filter (\<lambda>k. \<not> is_array_index k) (first_seen (map app_patientName apps))"
proof -
  define gs where "gs = map (group_of apps) (key_order (first_seen (map app_patientName apps)))"
  have c: "calculateTotals apps = Inr (gs, sum_totals gs)"
    using calculateTotals_safe [OF assms] by (simp add: gs_def)
  have n: "map patientName gs = key_order (first_seen (map app_patientName apps))"
    by (simp add: gs_def comp_def)
  from c n show ?thesis unfolding key_order_def by (intro exI conjI)
qed

theorem calculateTotals_order_witness:
  "names_safe [appt ''1'' ''2024-03-04'' ''Bruno'' 100, appt ''2'' ''2024-03-05'' ''7'' 100,
               appt ''3'' ''2024-03-06'' ''Ana'' 100, appt ''4'' ''2024-03-07'' ''Bruno'' 100] \<and>
   (\<exists>gs t. calculateTotals [appt ''1'' ''2024-03-04'' ''Bruno'' 100, appt ''2'' ''2024-03-05'' ''7'' 100,
               appt ''3'' ''2024-03-06'' ''Ana'' 100, appt ''4'' ''2024-03-07'' ''Bruno'' 100] = Inr (gs, t) \<and>
            map patientName gs = [''7'', ''Bruno'', ''Ana''])"
  using calculateTotals_order [of "[appt ''1'' ''2024-03-04'' ''Bruno'' 100,
      appt ''2'' ''2024-03-05'' ''7'' 100, appt ''3'' ''2024-03-06'' ''Ana'' 100,
      appt ''4'' ''2024-03-07'' ''Bruno'' 100]"]
  by (simp add: names_safe_def object_prototype_keys_def appt_def first_seen_def
      is_array_index_def is_digit_def parse_nat_def digit_value_def)

text \<open>
  Claim C6: the groups hold every input record exactly once, each in the group of its own
  name and in input order, with the group total the sum of its records. The code misses
  the names of \<open>Object.prototype\<close> (the defect of claim C1): with a patient named
  \<open>toString\<close> after Ana the reduction throws, and no record of the input, Ana's
  included, reaches any group. (\<open>calculateTotals_partition\<close> shows the claim on every
  other input.)
\<close>

theorem calculateTotals_toString_throws:
  "calculateTotals [appt ''1'' ''2024-03-04'' ''Ana'' 100, appt ''2'' ''2024-03-05'' ''toString'' (101 / 2)] =
     Inl TypeError"
  by (simp add: Let_def calculateTotals_def reducer_def get_prop_def truthy_def
      object_prototype_keys_def appt_def to_double_100)

text \<open>
  Claim C9: the empty input gives no group and the grand total 0, and a record of value 0
  still creates or stays in the group of its name. The first half holds
  (\<open>calculateTotals_empty\<close>), and so does the second on every input without a name of
  \<open>Object.prototype\<close> (\<open>calculateTotals_keeps_record\<close>). The code misses those names
  (the defect of claim C1): the zero-valued record of a patient named \<open>valueOf\<close> creates
  no group, the call throws.
\<close>

theorem calculateTotals_zero_valueOf_throws:
  "calculateTotals [appt ''1'' ''2024-03-04'' ''valueOf'' 0] = Inl TypeError"
  by (simp add: calculateTotals_def reducer_def get_prop_def truthy_def
      object_prototype_keys_def appt_def)

section \<open>Rounding at display\<close>

lemma floor_numeral_div: "\<lfloor>numeral a / numeral b :: rat\<rfloor> = numeral a div numeral b"
  using floor_divide_of_int_eq [of "numeral a" "numeral b", where ?'a = rat] by simp

lemma toFixed2_samples:
  "toFixed2 big (Finite 100) = ''100.00''"
  "toFixed2 big (Finite (101 / 2)) = ''50.50''"
  "toFixed2 big (Finite (301 / 2)) = ''150.50''"
  "toFixed2 big (Finite (301 / 4)) = ''75.25''"
  "toFixed2 big (Finite (903 / 4)) = ''225.75''"
  "toFixed2 big (Finite 0) = ''0.00''"
  "toFixed2 big (Finite (1 / 8)) = ''0.13''"
  "toFixed2 big (Finite (1 / 4)) = ''0.25''"
  by (simp_all add: toFixed2_def cents_def digit_def nat_to_string.simps Let_def floor_numeral_div)

text \<open>
  A sum of doubles that stays below \<open>2\<^sup>2\<^sup>0\<close> is within \<open>2\<^sup>-\<^sup>3\<^sup>4\<close> per addition of the sum of
  the values that the doubles stand for.
\<close>

lemma pow2_20: "pow2 20 = 2 ^ 20" and pow2_m34: "pow2 (- 34) = 1 / 2 ^ 34"
  by (simp_all add: pow2_def)

lemma float_sum_near:
  fixes val :: "'a \<Rightarrow> number" and ideal err :: "'a \<Rightarrow> rat"
  assumes "\<forall>i\<in>set items. \<exists>r. val i = Finite r \<and> \<bar>r - ideal i\<bar> \<le> err i"
    and "\<forall>i\<in>set items. 0 \<le> ideal i \<and> 0 \<le> err i"
    and "sum_list (map ideal items) + sum_list (map err items) + of_nat (length items) / 2 ^ 34
         < 2 ^ 20"
  shows "\<exists>s. float_sum (map val items) = Finite s \<and>
             \<bar>s - sum_list (map ideal items)\<bar>
               \<le> sum_list (map err items) + of_nat (length items) / 2 ^ 34"
  using assms
proof (induction items rule: rev_induct)
  case Nil
  show ?case by (simp add: float_sum_def)
next
  case (snoc i xs)
  let ?I = "sum_list (map ideal xs)" and ?E = "sum_list (map err xs)"
  let ?k = "(of_nat (length xs) :: rat) / 2 ^ 34"
  have nonneg: "0 \<le> ideal i" "0 \<le> err i" using snoc.prems(2) by simp_all
  have I0: "0 \<le> ?I" using snoc.prems(2) by (intro sum_list_nonneg) auto
  have bound: "?I + ideal i + (?E + err i) + (?k + 1 / 2 ^ 34) < 2 ^ 20"
    using snoc.prems(3) by (simp add: add_divide_distrib algebra_simps)
  have "\<exists>s. float_sum (map val xs) = Finite s \<and> \<bar>s - ?I\<bar> \<le> ?E + ?k"
  proof (rule snoc.IH)
    show "\<forall>i\<in>set xs. \<exists>r. val i = Finite r \<and> \<bar>r - ideal i\<bar> \<le> err i"
      using snoc.prems(1) by simp
    show "\<forall>i\<in>set xs. 0 \<le> ideal i \<and> 0 \<le> err i"
      using snoc.prems(2) by simp
    show "?I + ?E + ?k < 2 ^ 20" using bound nonneg by simp
  qed
  then obtain s where s: "float_sum (map val xs) = Finite s" and s_err: "\<bar>s - ?I\<bar> \<le> ?E + ?k"
    by blast
  from snoc.prems(1) obtain r where r: "val i = Finite r" and r_err: "\<bar>r - ideal i\<bar> \<le> err i"
    by auto
  have "\<bar>s + r\<bar> < pow2 20"
    using s_err r_err bound I0 nonneg by (simp add: pow2_20)
  from to_double_error [OF this] obtain y
    where y: "to_double (s + r) = Finite y" and y_err: "\<bar>y - (s + r)\<bar> \<le> 1 / 2 ^ 34"
    by (auto simp: pow2_m34)
  have "float_sum (map val (xs @ [i])) = Finite y"
    by (simp add: float_sum_snoc s r y)
  moreover have "\<bar>y - sum_list (map ideal (xs @ [i]))\<bar>
      \<le> sum_list (map err (xs @ [i])) + of_nat (length (xs @ [i])) / 2 ^ 34"
  proof -
    have "sum_list (map ideal (xs @ [i])) = ?I + ideal i"
      and "sum_list (map err (xs @ [i])) = ?E + err i"
      and "(of_nat (length (xs @ [i])) :: rat) / 2 ^ 34 = ?k + 1 / 2 ^ 34"
      by (simp_all add: add_divide_distrib)
    then show ?thesis using s_err r_err y_err by linarith
  qed
  ultimately show ?case by blast
qed

lemma cents_near:
  assumes "\<bar>r - of_nat c / 100\<bar> < 1 / 200"
  shows "cents r = c" and "signed_cents r = int c"
proof -
  have c: "cents r = c"
  proof (cases "c = 0")
    case True
    with assms have "\<bar>r\<bar> < 1 / 200" by simp
    then have "\<lfloor>\<bar>r\<bar> * 100 + 1 / 2\<rfloor> = 0" by (simp add: floor_eq_iff)
    then show ?thesis using True by (simp add: cents_def)
  next
    case False
    then have "(1 :: rat) \<le> of_nat c" by simp
    with assms have "0 < r" by linarith
    then have "\<bar>r\<bar> * 100 + 1 / 2 = r * 100 + 1 / 2" by simp
    moreover have "\<lfloor>r * 100 + 1 / 2\<rfloor> = int c"
    proof (rule floor_unique)
      define x :: rat where "x = of_nat c / 100"
      have x: "of_int (int c) = 100 * x" by (simp add: x_def)
      from assms have "r - x < 1 / 200 \<and> - (r - x) < 1 / 200"
        unfolding x_def abs_less_iff .
      then show "of_int (int c) \<le> r * 100 + 1 / 2" and "r * 100 + 1 / 2 < of_int (int c) + 1"
        unfolding x by linarith+
    qed
    ultimately show ?thesis by (simp add: cents_def)
  qed
  show "cents r = c" by (rule c)
  show "signed_cents r = int c"
  proof (cases "r < 0")
    case True
    with assms have "c = 0" by (cases "c = 0") (simp, linarith)
    then show ?thesis using c by (simp add: signed_cents_def)
  next
    case False
    then show ?thesis using c by (simp add: signed_cents_def)
  qed
qed

lemma sum_totals_float_sum: "sum_totals ps = float_sum (map totalValue ps)"
  by (simp add: sum_totals_def float_sum_def foldl_map)

lemma sum_list_filter_le_nat:
  fixes f :: "'a \<Rightarrow> nat"
  shows "sum_list (map f (filter P xs)) \<le> sum_list (map f xs)"
  by (induction xs) auto

lemma sum_list_cents:
  fixes f :: "'a \<Rightarrow> nat"
  shows "sum_list (map (\<lambda>a. (of_nat (f a) :: rat) / 100) xs) = of_nat (sum_list (map f xs)) / 100"
  by (induction xs) (simp_all add: add_divide_distrib)

lemma sum_list_scaled:
  fixes f :: "'a \<Rightarrow> nat"
  shows "sum_list (map (\<lambda>a. (of_nat (f a) :: rat) * c) xs) = of_nat (sum_list (map f xs)) * c"
  by (induction xs) (simp_all add: algebra_simps)

lemma sum_list_int:
  fixes f :: "'a \<Rightarrow> nat"
  shows "sum_list (map (\<lambda>a. int (f a)) xs) = int (sum_list (map f xs))"
  by (induction xs) simp_all

lemma sum_list_ones: "sum_list (map (\<lambda>a. Suc 0) xs) = length xs"
  by (induction xs) simp_all

lemma sum_list_map_concat:
  fixes f :: "'a \<Rightarrow> nat"
  shows "sum_list (map f (concat xss)) = sum_list (map (\<lambda>xs. sum_list (map f xs)) xss)"
  by (induction xss) simp_all

lemma sum_list_mset_cong:
  fixes f :: "'a \<Rightarrow> nat"
  assumes "mset xs = mset ys"
  shows "sum_list (map f xs) = sum_list (map f ys)"
proof -
  have "sum_list (map f xs) = sum_mset (image_mset f (mset xs))"
    by (simp only: mset_map [symmetric] sum_mset_sum_list)
  also have "\<dots> = sum_mset (image_mset f (mset ys))" by (simp only: assms)
  also have "\<dots> = sum_list (map f ys)"
    by (simp only: mset_map [symmetric] sum_mset_sum_list)
  finally show ?thesis .
qed

lemma partition_sum:
  fixes f :: "appointmentWithPatient \<Rightarrow> nat"
  assumes "distinct ks" and "set ks = app_patientName ` set apps"
  shows "sum_list (map (\<lambda>k. sum_list (map f (records_of k apps))) ks) = sum_list (map f apps)"
proof -
  have "mset (concat (map (\<lambda>k. filter (\<lambda>a. app_patientName a = k) apps) ks)) =
        mset (filter (\<lambda>a. app_patientName a \<in> set ks) apps)"
    using assms(1) by (rule mset_concat_groups)
  also have "filter (\<lambda>a. app_patientName a \<in> set ks) apps = apps"
    by (simp add: assms(2) filter_id_conv)
  finally have "sum_list (map f (concat (map (\<lambda>k. filter (\<lambda>a. app_patientName a = k) apps) ks))) =
        sum_list (map f apps)"
    by (rule sum_list_mset_cong)
  then show ?thesis
    by (simp add: sum_list_map_concat records_of_def comp_def)
qed

lemma subtotal_near:
  assumes cents: "list_all (\<lambda>a. whole_cents (app_value a)) apps"
    and len: "length apps \<le> 1000000"
    and tot: "sum_list (map (\<lambda>a. cents_of (app_value a)) apps) \<le> 100000000"
  shows "\<exists>s. totalValue (group_of apps k) = Finite s \<and>
           \<bar>s - of_nat (sum_list (map (\<lambda>a. cents_of (app_value a)) (records_of k apps))) / 100\<bar>
             \<le> of_nat (length (records_of k apps)) * (3 / 2 ^ 34)"
proof -
  let ?recs = "records_of k apps"
  let ?ideal = "\<lambda>a. (of_nat (cents_of (app_value a)) :: rat) / 100"
  let ?err = "\<lambda>a :: appointmentWithPatient. (1 :: rat) / 2 ^ 33"
  have 1: "\<forall>a\<in>set ?recs. \<exists>r. app_value a = Finite r \<and> \<bar>r - ?ideal a\<bar> \<le> ?err a"
  proof
    fix a
    assume "a \<in> set ?recs"
    then have "whole_cents (app_value a)"
      using cents by (auto simp: list_all_iff records_of_def)
    then show "\<exists>r. app_value a = Finite r \<and> \<bar>r - ?ideal a\<bar> \<le> ?err a"
      by (cases "app_value a") (simp_all add: whole_cents_def cents_of_def)
  qed
  have 2: "\<forall>a\<in>set ?recs. 0 \<le> ?ideal a \<and> 0 \<le> ?err a" by simp
  have "length ?recs \<le> length apps" by (simp add: records_of_def)
  then have "length ?recs \<le> 1000000" using len by simp
  then have "(of_nat (length ?recs) :: rat) \<le> of_nat 1000000" by (rule of_nat_mono)
  then have n: "(of_nat (length ?recs) :: rat) \<le> 1000000" by simp
  have "sum_list (map (\<lambda>a. cents_of (app_value a)) ?recs) \<le> 100000000"
    using tot sum_list_filter_le_nat [of "\<lambda>a. cents_of (app_value a)" "\<lambda>a. app_patientName a = k" apps]
    by (simp add: records_of_def)
  then have "(of_nat (sum_list (map (\<lambda>a. cents_of (app_value a)) ?recs)) :: rat) \<le> of_nat 100000000"
    by (rule of_nat_mono)
  then have c: "(of_nat (sum_list (map (\<lambda>a. cents_of (app_value a)) ?recs)) :: rat) \<le> 100000000"
    by simp
  have si: "sum_list (map ?ideal ?recs) =
            of_nat (sum_list (map (\<lambda>a. cents_of (app_value a)) ?recs)) / 100"
    by (rule sum_list_cents)
  have se: "sum_list (map ?err ?recs) = of_nat (length ?recs) * (1 / 2 ^ 33)"
    by (simp add: sum_list_triv)
  have 3: "sum_list (map ?ideal ?recs) + sum_list (map ?err ?recs) +
           of_nat (length ?recs) / 2 ^ 34 < 2 ^ 20"
    unfolding si se using n c by simp
  from float_sum_near [of ?recs app_value ?ideal ?err, OF 1 2 3]
  obtain s where s: "float_sum (map app_value ?recs) = Finite s"
    and e: "\<bar>s - sum_list (map ?ideal ?recs)\<bar>
            \<le> sum_list (map ?err ?recs) + of_nat (length ?recs) / 2 ^ 34"
    by blast
  have "totalValue (group_of apps k) = Finite s" by (simp add: group_of_def s)
  moreover have "\<bar>s - of_nat (sum_list (map (\<lambda>a. cents_of (app_value a)) ?recs)) / 100\<bar>
      \<le> of_nat (length ?recs) * (3 / 2 ^ 34)"
    using e unfolding si se by simp
  ultimately show ?thesis by blast
qed

text \<open>Two-decimal amounts up to a million, as the number input delivers them.\<close>

lemma two_decimals_whole_cents:
  assumes "c \<le> 100000000"
  shows "\<exists>r. to_double (of_nat c / 100) = Finite r \<and> whole_cents (Finite r) \<and>
             cents_of (Finite r) = c"
proof -
  have "(of_nat c :: rat) \<le> of_nat 100000000" using assms by (rule of_nat_mono)
  then have "\<bar>(of_nat c :: rat) / 100\<bar> < pow2 20" by (simp add: pow2_20)
  from to_double_error [OF this] obtain r
    where r: "to_double (of_nat c / 100) = Finite r" and e: "\<bar>r - of_nat c / 100\<bar> \<le> 1 / 2 ^ 34"
    by (auto simp: pow2_m34)
  from e have "\<bar>r - of_nat c / 100\<bar> < 1 / 200" by simp
  then have "cents r = c" by (rule cents_near)
  moreover from e have "\<bar>r - of_nat c / 100\<bar> \<le> 1 / 2 ^ 33" by simp
  ultimately show ?thesis using r by (simp add: whole_cents_def cents_of_def)
qed

lemma bitlen_numeral: "bitlen (numeral n) = bitlen (numeral n div 2) + 1"
  by (subst compute_bitlen) simp

lemma bitlen_1: "bitlen 1 = 1"
  by (subst compute_bitlen) simp

lemma to_double_drift: "to_double 9007199254740993 = Finite 9007199254740992"
proof -
  have "ilog2 9007199254740993 = 53"
    by (simp add: ilog2_def bitlen_numeral bitlen_1 pow2_def)
  then show ?thesis
    by (simp add: to_double_def pow2_def round_half_even_def Let_def floor_numeral_div)
qed

lemma to_double_2_53: "to_double 9007199254740992 = Finite 9007199254740992"
  using to_double_exact [of 9007199254740992 1 53] by (simp add: pow2_def)

lemma to_double_1: "to_double 1 = Finite 1"
  using to_double_exact [of 1 1 0] by (simp add: pow2_def)

lemma to_double_eighth: "to_double (1 / 8) = Finite (1 / 8)"
  using to_double_exact [of "1 / 8" 1 "- 3"] by (simp add: pow2_def)

lemma to_double_quarter: "to_double (1 / 4) = Finite (1 / 4)"
  using to_double_exact [of "1 / 4" 1 "- 2"] by (simp add: pow2_def)

section \<open>Claims about the rounding of the report\<close>

text \<open>
  Claim C2, as stated: for every input the displayed subtotals add up to the displayed
  grand total, because the sums are taken in a fixed-point or decimal representation. The
  code adds the \<open>number\<close>s of JavaScript, binary doubles, and rounds each subtotal and the
  grand total on its own when it prints them with \<open>toFixed(2)\<close>. For Ana 0.125 and Bruno
  0.125 (both doubles, and all sums exact) the subtotals print as 0.13 and 0.13 and the
  grand total 0.25 prints as 0.25. For Ana 9007199254740992.00 and Bruno 1.00 the grand
  total is the double nearest to 9007199254740993, which is 9007199254740992: the
  subtotals are displayed exactly and the grand total is one unit short of their sum.
\<close>

theorem rounding_consistency_counterexample:
  "is_double (Finite (1 / 8)) \<and>
   calculateTotals eighths =
     Inr ([\<lparr>patientName = ''Ana'', totalValue = Finite (1 / 8),
            appointments = [appt ''1'' ''2024-03-04'' ''Ana'' (1 / 8)]\<rparr>,
           \<lparr>patientName = ''Bruno'', totalValue = Finite (1 / 8),
            appointments = [appt ''2'' ''2024-03-05'' ''Bruno'' (1 / 8)]\<rparr>],
          Finite (1 / 4)) \<and>
   toFixed2 (number_toString sample_host) (Finite (1 / 8)) = ''0.13'' \<and>
   toFixed2 (number_toString sample_host) (Finite (1 / 4)) = ''0.25'' \<and>
   \<not> rounding_consistent
       [\<lparr>patientName = ''Ana'', totalValue = Finite (1 / 8),
          appointments = [appt ''1'' ''2024-03-04'' ''Ana'' (1 / 8)]\<rparr>,
        \<lparr>patientName = ''Bruno'', totalValue = Finite (1 / 8),
          appointments = [appt ''2'' ''2024-03-05'' ''Bruno'' (1 / 8)]\<rparr>]
       (Finite (1 / 4)) \<and>
   calculateTotals drift =
     Inr ([\<lparr>patientName = ''Ana'', totalValue = Finite 9007199254740992,
            appointments = [appt ''1'' ''2024-03-04'' ''Ana'' 9007199254740992]\<rparr>,
           \<lparr>patientName = ''Bruno'', totalValue = Finite 1,
            appointments = [appt ''2'' ''2024-03-05'' ''Bruno'' 1]\<rparr>],
          Finite 9007199254740992) \<and>
   \<not> rounding_consistent
       [\<lparr>patientName = ''Ana'', totalValue = Finite 9007199254740992,
          appointments = [appt ''1'' ''2024-03-04'' ''Ana'' 9007199254740992]\<rparr>,
        \<lparr>patientName = ''Bruno'', totalValue = Finite 1,
          appointments = [appt ''2'' ''2024-03-05'' ''Bruno'' 1]\<rparr>]
       (Finite 9007199254740992)"
proof -
  have "calculateTotals eighths =
     Inr ([\<lparr>patientName = ''Ana'', totalValue = Finite (1 / 8),
            appointments = [appt ''1'' ''2024-03-04'' ''Ana'' (1 / 8)]\<rparr>,
           \<lparr>patientName = ''Bruno'', totalValue = Finite (1 / 8),
            appointments = [appt ''2'' ''2024-03-05'' ''Bruno'' (1 / 8)]\<rparr>],
          Finite (1 / 4))"
    by (simp add: Let_def calculateTotals_def eighths_def appt_def reducer_def get_prop_def
        truthy_def object_prototype_keys_def object_values_def is_array_index_def is_digit_def
        sum_totals_def to_double_eighth to_double_quarter)
  moreover have "\<not> rounding_consistent
       [\<lparr>patientName = ''Ana'', totalValue = Finite (1 / 8),
          appointments = [appt ''1'' ''2024-03-04'' ''Ana'' (1 / 8)]\<rparr>,
        \<lparr>patientName = ''Bruno'', totalValue = Finite (1 / 8),
          appointments = [appt ''2'' ''2024-03-05'' ''Bruno'' (1 / 8)]\<rparr>]
       (Finite (1 / 4))"
    by (simp add: rounding_consistent_def shown_cents_def signed_cents_def cents_def
        floor_numeral_div)
  moreover have "calculateTotals drift =
     Inr ([\<lparr>patientName = ''Ana'', totalValue = Finite 9007199254740992,
            appointments = [appt ''1'' ''2024-03-04'' ''Ana'' 9007199254740992]\<rparr>,
           \<lparr>patientName = ''Bruno'', totalValue = Finite 1,
            appointments = [appt ''2'' ''2024-03-05'' ''Bruno'' 1]\<rparr>],
          Finite 9007199254740992)"
    by (simp add: Let_def calculateTotals_def drift_def appt_def reducer_def get_prop_def
        truthy_def object_prototype_keys_def object_values_def is_array_index_def is_digit_def
        sum_totals_def to_double_2_53 to_double_1 to_double_drift)
  moreover have "\<not> rounding_consistent
       [\<lparr>patientName = ''Ana'', totalValue = Finite 9007199254740992,
          appointments = [appt ''1'' ''2024-03-04'' ''Ana'' 9007199254740992]\<rparr>,
        \<lparr>patientName = ''Bruno'', totalValue = Finite 1,
          appointments = [appt ''2'' ''2024-03-05'' ''Bruno'' 1]\<rparr>]
       (Finite 9007199254740992)"
    by (simp add: rounding_consistent_def decimal_shown_def shown_cents_def signed_cents_def
        cents_def floor_numeral_div)
  ultimately show ?thesis
    by (simp add: is_double_def to_double_eighth toFixed2_samples)
qed

text \<open>
  Claim C2, amended: the sums are taken in binary doubles, and each subtotal and the grand
  total are rounded on their own at display. When every value is a whole number of
  cents (a double within \<open>2\<^sup>-\<^sup>3\<^sup>3\<close> of one), the input has at most a million records that add
  up to at most 1 000 000.00, and no patientName is a name of \<open>Object.prototype\<close>, the
  displayed subtotals add up exactly to the displayed grand total.
\<close>

theorem rounding_consistency_whole_cents:
  assumes safe: "names_safe apps" and input: "cents_input apps"
  shows "\<exists>gs t. calculateTotals apps = Inr (gs, t) \<and> rounding_consistent gs t"
proof -
  from input have cents: "list_all (\<lambda>a. whole_cents (app_value a)) apps"
    and len: "length apps \<le> 1000000"
    and tot: "sum_list (map (\<lambda>a. cents_of (app_value a)) apps) \<le> 100000000"
    by (simp_all add: cents_input_def)
  define ks where "ks = key_order (first_seen (map app_patientName apps))"
  define gs where "gs = map (group_of apps) ks"
  define C where "C = (\<lambda>k. sum_list (map (\<lambda>a. cents_of (app_value a)) (records_of k apps)))"
  define n where "n = (\<lambda>k. length (records_of k apps))"
  define val where "val = (\<lambda>k. totalValue (group_of apps k))"
  define ideal where "ideal = (\<lambda>k. (of_nat (C k) :: rat) / 100)"
  define err where "err = (\<lambda>k. (of_nat (n k) :: rat) * (3 / 2 ^ 34))"
  have ks: "distinct ks" "set ks = app_patientName ` set apps" by (simp_all add: ks_def)
  have calc: "calculateTotals apps = Inr (gs, float_sum (map val ks))"
    using calculateTotals_safe [OF safe]
    by (simp add: gs_def ks_def sum_totals_float_sum val_def comp_def)
  have per: "\<exists>s. val k = Finite s \<and> \<bar>s - ideal k\<bar> \<le> err k" for k
    unfolding val_def ideal_def err_def C_def n_def
    by (rule subtotal_near [OF cents len tot])
  have partC: "sum_list (map C ks) = sum_list (map (\<lambda>a. cents_of (app_value a)) apps)"
    unfolding C_def by (rule partition_sum [OF ks])
  have "sum_list (map n ks) = sum_list (map (\<lambda>a. Suc 0) apps)"
    using partition_sum [OF ks, of "\<lambda>a. Suc 0"] by (simp add: n_def sum_list_ones)
  then have partn: "sum_list (map n ks) = length apps" by (simp add: sum_list_ones)
  have "length ks \<le> length apps"
    by (simp add: ks_def first_seen_def) (metis length_remdups_leq length_map length_rev)
  then have "length ks \<le> 1000000" using len by simp
  then have "(of_nat (length ks) :: rat) \<le> of_nat 1000000" by (rule of_nat_mono)
  then have G: "(of_nat (length ks) :: rat) \<le> 1000000" by simp
  have "(of_nat (length apps) :: rat) \<le> of_nat 1000000" using len by (rule of_nat_mono)
  then have N: "(of_nat (length apps) :: rat) \<le> 1000000" by simp
  have "(of_nat (sum_list (map C ks)) :: rat) \<le> of_nat 100000000"
    using tot unfolding partC by (rule of_nat_mono)
  then have Ctot: "(of_nat (sum_list (map C ks)) :: rat) \<le> 100000000" by simp
  have si: "sum_list (map ideal ks) = of_nat (sum_list (map C ks)) / 100"
    unfolding ideal_def by (rule sum_list_cents)
  have se: "sum_list (map err ks) = of_nat (length apps) * (3 / 2 ^ 34)"
    unfolding err_def by (simp only: sum_list_scaled partn)
  have 1: "\<forall>k\<in>set ks. \<exists>r. val k = Finite r \<and> \<bar>r - ideal k\<bar> \<le> err k"
    using per by blast
  have 2: "\<forall>k\<in>set ks. 0 \<le> ideal k \<and> 0 \<le> err k"
    by (simp add: ideal_def err_def)
  have 3: "sum_list (map ideal ks) + sum_list (map err ks) + of_nat (length ks) / 2 ^ 34 < 2 ^ 20"
    unfolding si se using N G Ctot by simp
  from float_sum_near [of ks val ideal err, OF 1 2 3]
  obtain T where T: "float_sum (map val ks) = Finite T"
    and Te: "\<bar>T - sum_list (map ideal ks)\<bar>
             \<le> sum_list (map err ks) + of_nat (length ks) / 2 ^ 34"
    by blast
  have "\<bar>T - of_nat (sum_list (map C ks)) / 100\<bar> < 1 / 200"
    using Te unfolding si se using N G by simp
  then have Tc: "signed_cents T = int (sum_list (map C ks))" by (rule cents_near)
  have Td: "decimal_shown (Finite T)"
    using Te unfolding si se using N G Ctot by (simp add: decimal_shown_def)
  have each: "decimal_shown (val k) \<and> shown_cents (val k) = int (C k)" for k
  proof -
    from per [of k] obtain s where s: "val k = Finite s" and e: "\<bar>s - ideal k\<bar> \<le> err k"
      by blast
    have "n k \<le> length apps" by (simp add: n_def records_of_def)
    then have "n k \<le> 1000000" using len by simp
    then have "(of_nat (n k) :: rat) \<le> of_nat 1000000" by (rule of_nat_mono)
    then have nk: "(of_nat (n k) :: rat) \<le> 1000000" by simp
    have "C k \<le> sum_list (map (\<lambda>a. cents_of (app_value a)) apps)"
      unfolding C_def records_of_def by (rule sum_list_filter_le_nat)
    then have "C k \<le> 100000000" using tot by simp
    then have "(of_nat (C k) :: rat) \<le> of_nat 100000000" by (rule of_nat_mono)
    then have Ck: "(of_nat (C k) :: rat) \<le> 100000000" by simp
    have "\<bar>s - of_nat (C k) / 100\<bar> < 1 / 200"
      using e nk by (simp add: ideal_def err_def)
    then have "signed_cents s = int (C k)" by (rule cents_near)
    moreover have "\<bar>s\<bar> < 10 ^ 21"
    proof -
      have "err k \<le> 1" using nk by (simp add: err_def)
      moreover have "ideal k \<le> 1000000" "0 \<le> ideal k" using Ck by (simp_all add: ideal_def)
      ultimately have "\<bar>s\<bar> < 1000002" using e by linarith
      then show ?thesis by simp
    qed
    ultimately show ?thesis by (simp add: s decimal_shown_def shown_cents_def)
  qed
  have "rounding_consistent gs (float_sum (map val ks))"
  proof -
    have "list_all (\<lambda>g. decimal_shown (totalValue g)) gs"
      using each by (simp add: gs_def list_all_iff val_def)
    moreover have "sum_list (map (\<lambda>g. shown_cents (totalValue g)) gs) =
        sum_list (map (\<lambda>k. int (C k)) ks)"
      using each by (simp add: gs_def comp_def val_def)
    ultimately show ?thesis
      using Td Tc by (simp add: rounding_consistent_def T shown_cents_def sum_list_int)
  qed
  with calc show ?thesis by blast
qed

theorem rounding_consistency_whole_cents_witness:
  "names_safe spec_example \<and> cents_input spec_example \<and>
   (\<exists>gs t. calculateTotals spec_example = Inr (gs, t) \<and> rounding_consistent gs t)"
proof -
  have 1: "names_safe spec_example"
    by (simp add: names_safe_def spec_example_def appt_def object_prototype_keys_def)
  have 2: "cents_input spec_example"
    by (simp add: cents_input_def spec_example_def appt_def whole_cents_def cents_of_def
        cents_def floor_numeral_div)
  from rounding_consistency_whole_cents [OF 1 2] 1 2 show ?thesis by simp
qed

section \<open>Claims about the export\<close>

text \<open>
  The date cell. \<open>new Date\<close> reads a date-only string as midnight UTC of that day, and
  \<open>format\<close> prints the calendar day of that instant in the browser's time zone. In a zone
  at or ahead of UTC (by less than a day) the cell is the record's own day; in a zone behind
  UTC it is the day before.
\<close>

lemma sheet_record_ahead_of_utc:
  assumes "date_only (app_date app) = Some (y, m, d)"
    and "0 \<le> utc_offset h (y, m, d) 0" and "utc_offset h (y, m, d) 0 < 1440"
  shows "sheet_record h app =
         Inr [app_patientName app, two_digits d @ ''/'' @ two_digits m @ ''/'' @ year_yyyy y,
              currency h (app_value app)]"
proof -
  have "utc_offset h (y, m, d) 0 div 1440 = 0" using assms(2,3) by simp
  then have "local_day h (y, m, d) 0 = (y, m, d)" by (simp add: local_day_def add_days_def)
  then show ?thesis
    by (simp add: sheet_record_def new_Date_def assms(1) format_ddMMyyyy_def)
qed

lemma sheet_record_behind_utc:
  assumes "date_only (app_date app) = Some c"
    and "- 1440 \<le> utc_offset h c 0" and "utc_offset h c 0 < 0"
    and "previous_day c = (y, m, d)"
  shows "sheet_record h app =
         Inr [app_patientName app, two_digits d @ ''/'' @ two_digits m @ ''/'' @ year_yyyy y,
              currency h (app_value app)]"
proof -
  have "utc_offset h c 0 div 1440 = - 1"
    using assms(2,3) by (simp add: div_eq_minus1 zdiv_eq_0_iff)
  then have "local_day h c 0 = previous_day c" by (simp add: local_day_def add_days_def)
  then show ?thesis
    by (simp add: sheet_record_def new_Date_def assms(1,4) format_ddMMyyyy_def)
qed

text \<open>
  The layout. When every date can be formatted, the sheet has the header row that
  \<open>json_to_sheet\<close> writes for the keys (a blank row when there is no record), one row per
  appointment record of the groups, in group order, then one row \<open>Total <name>:\<close>, blank,
  subtotal per group in group order, then the row \<open>Total Geral:\<close>, blank, grand total. The
  file is named after the current month in the \<open>ptBR\<close> locale and the current year.
\<close>

lemma map_throw_Inr: "(map_throw f xs = Inr ys) = list_all2 (\<lambda>x y. f x = Inr y) xs ys"
proof (induction xs arbitrary: ys)
  case Nil
  show ?case by auto
next
  case (Cons x xs)
  show ?case
  proof (cases ys)
    case Nil
    then show ?thesis by (simp split: sum.splits)
  next
    case (Cons y zs)
    then show ?thesis using Cons.IH [of zs]
      by (cases "f x"; cases "map_throw f xs") auto
  qed
qed

lemma month_names_ptBR:
  "map month_ptBR [January, February, March, April, May, June, July, August, September,
                   October, November, December] =
   [''janeiro'', ''fevereiro'', ''mar'' @ [char_of (231 :: nat)] @ ''o'', ''abril'', ''maio'',
    ''junho'', ''julho'', ''agosto'', ''setembro'', ''outubro'', ''novembro'', ''dezembro'']"
  by simp

lemma export_layout:
  assumes "sheet_records h (rs_patientTotals st) = Inr records"
  shows "handleExportExcel h st =
           Inr \<lparr>ex_rows =
                  (if records = [] then [Nil] else [ [''Paciente'', ''Data'', ''Valor''] ]) @
                  records @
                  map (\<lambda>patient. [''Total '' @ patientName patient @ '':'', [],
                                   ''R$ '' @ toFixed2 (number_toString h) (totalValue patient)])
                      (rs_patientTotals st) @
                  [ [''Total Geral:'', [],
                     ''R$ '' @ toFixed2 (number_toString h) (rs_totalValue st)] ],
                ex_filename =
                  ''relatorio-financeiro-'' @ month_ptBR (current_month h) @ ''-'' @
                  year_yyyy (int (current_year h)) @ ''.xlsx''\<rparr>"
    and "list_all2 (\<lambda>app row. sheet_record h app = Inr row)
           (concat (map appointments (rs_patientTotals st))) records"
proof -
  show "handleExportExcel h st =
           Inr \<lparr>ex_rows =
                  (if records = [] then [Nil] else [ [''Paciente'', ''Data'', ''Valor''] ]) @
                  records @
                  map (\<lambda>patient. [''Total '' @ patientName patient @ '':'', [],
                                   ''R$ '' @ toFixed2 (number_toString h) (totalValue patient)])
                      (rs_patientTotals st) @
                  [ [''Total Geral:'', [],
                     ''R$ '' @ toFixed2 (number_toString h) (rs_totalValue st)] ],
                ex_filename =
                  ''relatorio-financeiro-'' @ month_ptBR (current_month h) @ ''-'' @
                  year_yyyy (int (current_year h)) @ ''.xlsx''\<rparr>"
    by (simp add: handleExportExcel_def assms sheet_add_aoa_def json_to_sheet_def totalRows_def
        currency_def currentMonth_def)
  show "list_all2 (\<lambda>app row. sheet_record h app = Inr row)
           (concat (map appointments (rs_patientTotals st))) records"
    using assms by (simp add: sheet_records_def map_throw_Inr)
qed

text \<open>A date that cannot be read stops the export: \<open>format\<close> throws a \<open>RangeError\<close>.\<close>

lemma export_invalid_date:
  "handleExportExcel sample_host
     (initial_report\<lparr>rs_patientTotals :=
        [\<lparr>patientName = ''Ana'', totalValue = Finite 100,
          appointments = [appt ''1'' ''soon'' ''Ana'' 100]\<rparr>],
        rs_totalValue := Finite 100\<rparr>) = Inl RangeError"
  by (simp add: handleExportExcel_def sheet_records_def initial_report_def sheet_record_def
      new_Date_def appt_def date_only_def sample_host_def format_ddMMyyyy_def)

text \<open>
  Ana's appointment of 4 March 2024, exported in March 2024. The report state
  \<open>ana_march_4\<close> is the one that \<open>fetchAppointments\<close> computes from the store's row.
\<close>

lemma ana_march_4_fetched:
  "fetchAppointments
     (Data [\<lparr>rr_id = ''1'', rr_date = ''2024-03-04'', rr_value = Some (Finite 100),
             rr_patients = Some \<lparr>pj_name = ''Ana''\<rparr>\<rparr>]) initial_report =
   (ana_march_4, None)"
  by (simp add: fetchAppointments_def formattedAppointments_def has_patient_name_def
      format_row_def or_zero_def truthy_number_def initial_report_def appt_def ana_march_4_def
      Let_def calculateTotals_def reducer_def get_prop_def truthy_def
      object_prototype_keys_def object_values_def is_array_index_def is_digit_def
      sum_totals_def to_double_100)

lemma date_only_march_4: "date_only ''2024-03-04'' = Some (2024, 3, 4)"
  by (simp add: date_only_def is_digit_def parse_nat_def digit_value_def days_in_month_def)

lemma year_yyyy_2024: "year_yyyy 2024 = ''2024''"
  by (simp add: year_yyyy_def pad4_def nat_to_string.simps digit_def)

lemma two_digits_3_4: "two_digits 3 = ''03''" "two_digits 4 = ''04''"
  by (simp_all add: two_digits_def digit_def)

lemma local_day_sao_paulo: "local_day sao_paulo (2024, 3, 4) 0 = (2024, 3, 3)"
  by (simp add: local_day_def add_days_def sao_paulo_def)

lemma local_day_utc: "local_day sample_host c 0 = c"
  by (simp add: local_day_def add_days_def sample_host_def)

lemma sheet_record_sao_paulo:
  "sheet_record sao_paulo (appt ''1'' ''2024-03-04'' ''Ana'' 100) =
   Inr [''Ana'', ''03/03/2024'', ''R$ 100.00'']"
  by (simp add: sheet_record_def new_Date_def appt_def date_only_march_4 format_ddMMyyyy_def
      local_day_sao_paulo year_yyyy_2024 two_digits_3_4 currency_def toFixed2_samples)

lemma sheet_record_utc:
  "sheet_record sample_host (appt ''1'' ''2024-03-04'' ''Ana'' 100) =
   Inr [''Ana'', ''04/03/2024'', ''R$ 100.00'']"
  by (simp add: sheet_record_def new_Date_def appt_def date_only_march_4 format_ddMMyyyy_def
      local_day_utc year_yyyy_2024 two_digits_3_4 currency_def toFixed2_samples)

text \<open>In a browser on UTC the sheet is the one the claim describes.\<close>

lemma export_in_utc:
  "handleExportExcel sample_host ana_march_4 =
     Inr \<lparr>ex_rows =
            [ [''Paciente'', ''Data'', ''Valor''],
              [''Ana'', ''04/03/2024'', ''R$ 100.00''],
              [''Total Ana:'', [], ''R$ 100.00''],
              [''Total Geral:'', [], ''R$ 100.00''] ],
          ex_filename = ''relatorio-financeiro-mar'' @ [char_of (231 :: nat)] @ ''o-2024.xlsx''\<rparr>"
proof -
  have "currentMonth sample_host = ''mar'' @ [char_of (231 :: nat)] @ ''o-2024''"
    by (simp add: currentMonth_def sample_host_def year_yyyy_2024)
  then show ?thesis
    by (simp add: handleExportExcel_def sheet_records_def ana_march_4_def initial_report_def
        sheet_record_utc sheet_add_aoa_def json_to_sheet_def totalRows_def currency_def
        toFixed2_samples)
qed

text \<open>
  Claim C7: the exported sheet has one row per appointment record with the patient name,
  the date formatted day/month/year and the value as a currency string, then one summary
  row per patient, then the row of the grand total, and the file is named
  \<open>relatorio-financeiro-<month>-<year>.xlsx\<close> with the localized month name. The rows, their
  order, the currency strings and the file name are as claimed, but the date is not: in a
  browser in the time zone of Sao Paulo (three hours behind UTC), the appointment
  of Ana recorded on \<open>2024-03-04\<close> is exported with the date \<open>03/03/2024\<close>, the day before.
\<close>

theorem export_date_shifted:
  "handleExportExcel sao_paulo ana_march_4 =
     Inr \<lparr>ex_rows =
            [ [''Paciente'', ''Data'', ''Valor''],
              [''Ana'', ''03/03/2024'', ''R$ 100.00''],
              [''Total Ana:'', [], ''R$ 100.00''],
              [''Total Geral:'', [], ''R$ 100.00''] ],
          ex_filename = ''relatorio-financeiro-mar'' @ [char_of (231 :: nat)] @ ''o-2024.xlsx''\<rparr>"
proof -
  have "currentMonth sao_paulo = ''mar'' @ [char_of (231 :: nat)] @ ''o-2024''"
    by (simp add: currentMonth_def sao_paulo_def year_yyyy_2024)
  moreover have "number_toString sao_paulo = number_toString sample_host"
    by (simp add: sao_paulo_def sample_host_def)
  ultimately show ?thesis
    by (simp add: handleExportExcel_def sheet_records_def ana_march_4_def initial_report_def
        sheet_record_sao_paulo sheet_add_aoa_def json_to_sheet_def totalRows_def currency_def
        toFixed2_samples)
qed

section \<open>Claims about orphan appointments\<close>

lemma scheduled_rows_append:
  "scheduled_rows h (xs @ ys) = scheduled_rows h xs @ scheduled_rows h ys"
  by (simp add: scheduled_rows_def map_filter_def)

lemma scheduled_rows_single:
  "scheduled_rows h [a] = (case a_patient a of None \<Rightarrow> [] | Some p \<Rightarrow> [scheduled_row_of h a p])"
  by (simp add: scheduled_rows_def map_filter_def split: option.splits)

lemma formattedAppointments_append:
  "formattedAppointments (xs @ ys) = formattedAppointments xs @ formattedAppointments ys"
  by (simp add: formattedAppointments_def)

lemma formattedAppointments_single:
  "formattedAppointments [r] =
     (case rr_patients r of
        None \<Rightarrow> []
      | Some p \<Rightarrow> if pj_name p = [] then []
                  else [\<lparr>app_id = rr_id r, app_date = rr_date r, app_patientName = pj_name p,
                         app_value = or_zero (rr_value r)\<rparr>])"
  by (simp add: formattedAppointments_def has_patient_name_def format_row_def split: option.splits)

text \<open>
  Claim C5, as stated: appointments with a null patient are left out of the scheduling list
  and of the aggregator's input, and appointments with a resolvable patient are retained.
  The report's filter also asks for a non-empty name: the row of a patient that exists
  and has the empty name does not reach the aggregator.
\<close>

theorem orphan_filtering_counterexample:
  "rr_patients unnamed_row = Some \<lparr>pj_name = []\<rparr> \<and> formattedAppointments [unnamed_row] = []"
  by (simp add: unnamed_row_def formattedAppointments_def has_patient_name_def)

text \<open>
  Claim C5, amended: an appointment whose joined patient is null has no row in the list of
  scheduled consultations and changes nothing in what \<open>fetchAppointments\<close> of the report
  computes (its state, hence the report and the export); an appointment with a patient has
  its row in the scheduling list, and is in the aggregator's input when the patient's name
  is not empty.
\<close>

theorem orphan_filtering:
  assumes "a_patient a = None" and "rr_patients r = None"
    and "a_patient b = Some q" and "rr_patients s = Some p" and "pj_name p \<noteq> []"
  shows "scheduled_rows h (sched1 @ a # sched2) = scheduled_rows h (sched1 @ sched2) \<and>
         fetchAppointments (Data (xs @ r # ys)) st = fetchAppointments (Data (xs @ ys)) st \<and>
         scheduled_rows h (sched1 @ b # sched2) =
           scheduled_rows h sched1 @ [scheduled_row_of h b q] @ scheduled_rows h sched2 \<and>
         formattedAppointments (xs @ s # ys) =
           formattedAppointments xs @
           [\<lparr>app_id = rr_id s, app_date = rr_date s, app_patientName = pj_name p,
             app_value = or_zero (rr_value s)\<rparr>] @
           formattedAppointments ys"
proof -
  have a: "scheduled_rows h (sched1 @ [a] @ sched2) = scheduled_rows h (sched1 @ sched2)"
    using assms(1) by (simp only: scheduled_rows_append scheduled_rows_single) simp
  have r: "formattedAppointments (xs @ [r] @ ys) = formattedAppointments (xs @ ys)"
    using assms(2) by (simp only: formattedAppointments_append formattedAppointments_single) simp
  have b: "scheduled_rows h (sched1 @ [b] @ sched2) =
           scheduled_rows h sched1 @ [scheduled_row_of h b q] @ scheduled_rows h sched2"
    using assms(3) by (simp only: scheduled_rows_append scheduled_rows_single) simp
  have s: "formattedAppointments (xs @ [s] @ ys) =
           formattedAppointments xs @
           [\<lparr>app_id = rr_id s, app_date = rr_date s, app_patientName = pj_name p,
             app_value = or_zero (rr_value s)\<rparr>] @
           formattedAppointments ys"
    using assms(4,5) by (simp only: formattedAppointments_append formattedAppointments_single) simp
  from r have "fetchAppointments (Data (xs @ r # ys)) st = fetchAppointments (Data (xs @ ys)) st"
    by (simp add: fetchAppointments_def)
  with a b s show ?thesis by simp
qed

theorem orphan_filtering_witness:
  "a_patient (appointment.truncate (appointment_of ''a2'' None)) = None \<and>
   rr_patients orphan_row = None \<and>
   a_patient (appointment.truncate (appointment_of ''a1'' (Some \<lparr>pr_id = ''p1'', pr_name = ''Ana''\<rparr>))) =
     Some \<lparr>pr_id = ''p1'', pr_name = ''Ana''\<rparr> \<and>
   rr_patients ana_row = Some \<lparr>pj_name = ''Ana''\<rparr> \<and>
   pj_name \<lparr>pj_name = ''Ana''\<rparr> \<noteq> [] \<and>
   scheduled_rows sample_host [appointment.truncate (appointment_of ''a2'' None)] = [] \<and>
   fetchAppointments (Data [orphan_row]) initial_report =
     fetchAppointments (Data []) initial_report \<and>
   map row_key (scheduled_rows sample_host
     [appointment.truncate (appointment_of ''a1'' (Some \<lparr>pr_id = ''p1'', pr_name = ''Ana''\<rparr>))]) = [''a1''] \<and>
   map app_id (formattedAppointments [ana_row]) = [''a1'']"
  using orphan_filtering [where a = "appointment.truncate (appointment_of ''a2'' None)"
      and r = orphan_row
      and b = "appointment.truncate (appointment_of ''a1'' (Some \<lparr>pr_id = ''p1'', pr_name = ''Ana''\<rparr>))"
      and q = "\<lparr>pr_id = ''p1'', pr_name = ''Ana''\<rparr>" and s = ana_row
      and p = "\<lparr>pj_name = ''Ana''\<rparr>" and h = sample_host and ?sched1.0 = "[]"
      and ?sched2.0 = "[]" and xs = "[]" and ys = "[]" and st = initial_report]
  by (simp add: appointment_of_def appointment.truncate_def orphan_row_def ana_row_def
      scheduled_rows_def map_filter_def formattedAppointments_def scheduled_row_of_def)

text \<open>
  Claim C10: a fetched record whose patient exists with the empty name is left out of the
  input of the aggregation, so that the state of the report, and with it the export, is
  what it is without the record; the list of scheduled consultations, which asks only for
  a patient that is not null, shows the appointment.
\<close>

theorem empty_name_omitted:
  assumes "rr_patients r = Some p" and "pj_name p = []"
    and "a_patient a = Some q" and "pr_name q = []"
  shows "formattedAppointments (xs @ r # ys) = formattedAppointments (xs @ ys) \<and>
         fetchAppointments (Data (xs @ r # ys)) st = fetchAppointments (Data (xs @ ys)) st \<and>
         handleExportExcel h (fst (fetchAppointments (Data (xs @ r # ys)) st)) =
           handleExportExcel h (fst (fetchAppointments (Data (xs @ ys)) st)) \<and>
         scheduled_rows h (sched1 @ a # sched2) =
           scheduled_rows h sched1 @ [scheduled_row_of h a q] @ scheduled_rows h sched2 \<and>
         consultas_agendadas h (sched1 @ a # sched2) = Table (scheduled_rows h (sched1 @ a # sched2))"
proof -
  have r: "formattedAppointments (xs @ [r] @ ys) = formattedAppointments (xs @ ys)"
    using assms(1,2) by (simp only: formattedAppointments_append formattedAppointments_single) simp
  then have f: "fetchAppointments (Data (xs @ r # ys)) st = fetchAppointments (Data (xs @ ys)) st"
    by (simp add: fetchAppointments_def)
  have a: "scheduled_rows h (sched1 @ [a] @ sched2) =
           scheduled_rows h sched1 @ [scheduled_row_of h a q] @ scheduled_rows h sched2"
    using assms(3) by (simp only: scheduled_rows_append scheduled_rows_single) simp
  have c: "consultas_agendadas h (sched1 @ a # sched2) = Table (scheduled_rows h (sched1 @ a # sched2))"
    using assms(3) by (simp add: consultas_agendadas_def)
  from r f a c show ?thesis by simp
qed

theorem empty_name_omitted_witness:
  "rr_patients unnamed_row = Some \<lparr>pj_name = []\<rparr> \<and>
   pj_name \<lparr>pj_name = []\<rparr> = [] \<and>
   a_patient (appointment.truncate (appointment_of ''a3'' (Some \<lparr>pr_id = ''p3'', pr_name = []\<rparr>))) =
     Some \<lparr>pr_id = ''p3'', pr_name = []\<rparr> \<and>
   pr_name \<lparr>pr_id = ''p3'', pr_name = []\<rparr> = [] \<and>
   formattedAppointments [ana_row, unnamed_row] = formattedAppointments [ana_row] \<and>
   fetchAppointments (Data [ana_row, unnamed_row]) initial_report =
     fetchAppointments (Data [ana_row]) initial_report \<and>
   map row_key (scheduled_rows sample_host
     [appointment.truncate (appointment_of ''a3'' (Some \<lparr>pr_id = ''p3'', pr_name = []\<rparr>))]) = [''a3'']"
  using empty_name_omitted [where r = unnamed_row and p = "\<lparr>pj_name = []\<rparr>"
      and a = "appointment.truncate (appointment_of ''a3'' (Some \<lparr>pr_id = ''p3'', pr_name = []\<rparr>))"
      and q = "\<lparr>pr_id = ''p3'', pr_name = []\<rparr>" and h = sample_host and ?sched1.0 = "[]"
      and ?sched2.0 = "[]" and xs = "[ana_row]" and ys = "[]" and st = initial_report]
  by (simp add: appointment_of_def appointment.truncate_def unnamed_row_def
      scheduled_rows_def map_filter_def scheduled_row_of_def)

section \<open>Claims about the deletion of an appointment type\<close>

lemma appointmentsUsingType_empty:
  "(appointmentsUsingType typeId sv = []) = (\<not> type_in_use typeId sv)"
proof -
  have "(filter (\<lambda>a. a_appointment_type_id a = Some typeId) (sv_appointments sv) = []) =
        (\<not> type_in_use typeId sv)"
    by (simp add: type_in_use_def list_ex_iff filter_empty_conv)
  then show ?thesis by (simp add: appointmentsUsingType_def)
qed

lemma guard_refuses:
  assumes "fails (SelectAppointmentsUsingType typeId) = None"
    and "type_in_use typeId (sc_service w)"
  shows "handleDeleteAppointmentType fails typeId w =
         w\<lparr>sc_requests := sc_requests w @ [SelectAppointmentsUsingType typeId],
           sc_toasts := sc_toasts w @ [in_use_toast]\<rparr>"
  using assms
  by (simp add: handleDeleteAppointmentType_def Let_def issue_def add_toast_def
      appointmentsUsingType_empty)

lemma guard_check_failure:
  assumes "fails (SelectAppointmentsUsingType typeId) = Some msg"
  shows "handleDeleteAppointmentType fails typeId w =
         w\<lparr>sc_requests := sc_requests w @ [SelectAppointmentsUsingType typeId],
           sc_toasts := sc_toasts w @ [delete_failed_toast msg]\<rparr>"
  using assms
  by (simp add: handleDeleteAppointmentType_def Let_def issue_def add_toast_def)

lemma guard_deletes:
  assumes "fails (SelectAppointmentsUsingType typeId) = None"
    and "\<not> type_in_use typeId (sc_service w)"
    and "fails (DeleteAppointmentType typeId) = None"
    and "sc_currentUser w = Some uid"
  shows "sc_requests (handleDeleteAppointmentType fails typeId w) =
           sc_requests w @ [SelectAppointmentsUsingType typeId, DeleteAppointmentType typeId,
                            SelectAppointmentTypes uid, SelectAppointments uid]"
    and "sc_service (handleDeleteAppointmentType fails typeId w) = delete_type typeId (sc_service w)"
  using assms
  by (simp_all add: handleDeleteAppointmentType_def Let_def issue_def add_toast_def
      appointmentsUsingType_empty fetchAppointmentTypes_def fetchAppointments_scheduling_def
      split: option.splits)

lemma guard_never_deletes_used_type:
  assumes "type_in_use typeId (sc_service w)"
  shows "sc_service (handleDeleteAppointmentType fails typeId w) = sc_service w \<and>
         sc_requests (handleDeleteAppointmentType fails typeId w) =
           sc_requests w @ [SelectAppointmentsUsingType typeId]"
  using assms
  by (simp add: handleDeleteAppointmentType_def Let_def issue_def add_toast_def
      appointmentsUsingType_empty split: option.splits)

lemma fetches_keep_service:
  "sc_service (fetchAppointments_scheduling fails (fetchAppointmentTypes fails w)) = sc_service w"
  by (simp add: fetchAppointments_scheduling_def fetchAppointmentTypes_def issue_def
      add_toast_def Let_def split: option.splits)

lemma guard_issues_delete:
  assumes "fails (SelectAppointmentsUsingType typeId) = None"
    and "\<not> type_in_use typeId (sc_service w)"
  shows "\<exists>rest. sc_requests (handleDeleteAppointmentType fails typeId w) =
           sc_requests w @ [SelectAppointmentsUsingType typeId, DeleteAppointmentType typeId] @ rest"
  using assms
  by (simp add: handleDeleteAppointmentType_def Let_def issue_def add_toast_def
      appointmentsUsingType_empty fetchAppointmentTypes_def fetchAppointments_scheduling_def
      split: option.splits)

lemma guard_delete_failure:
  assumes "fails (SelectAppointmentsUsingType typeId) = None"
    and "\<not> type_in_use typeId (sc_service w)"
    and "fails (DeleteAppointmentType typeId) = Some msg"
  shows "handleDeleteAppointmentType fails typeId w =
         w\<lparr>sc_requests := sc_requests w @
              [SelectAppointmentsUsingType typeId, DeleteAppointmentType typeId],
           sc_toasts := sc_toasts w @ [delete_failed_toast msg]\<rparr>"
  using assms
  by (simp add: handleDeleteAppointmentType_def Let_def issue_def add_toast_def
      appointmentsUsingType_empty)

lemma guard_removes_type:
  assumes "fails (SelectAppointmentsUsingType typeId) = None"
    and "\<not> type_in_use typeId (sc_service w)"
    and "fails (DeleteAppointmentType typeId) = None"
  shows "sc_service (handleDeleteAppointmentType fails typeId w) =
           delete_type typeId (sc_service w)"
    and "\<exists>others. sc_toasts (handleDeleteAppointmentType fails typeId w) =
           sc_toasts w @ [deleted_toast] @ others"
  using assms
  by (simp_all add: handleDeleteAppointmentType_def Let_def issue_def add_toast_def
      appointmentsUsingType_empty fetchAppointmentTypes_def fetchAppointments_scheduling_def
      split: option.splits)

lemma guard_lists_refreshed:
  assumes "fails (SelectAppointmentsUsingType typeId) = None"
    and "\<not> type_in_use typeId (sc_service w)"
    and "fails (DeleteAppointmentType typeId) = None"
    and "sc_currentUser w = Some uid"
    and "fails (SelectAppointmentTypes uid) = None"
    and "fails (SelectAppointments uid) = None"
  shows "handleDeleteAppointmentType fails typeId w =
         w\<lparr>sc_service := delete_type typeId (sc_service w),
           sc_requests := sc_requests w @
              [SelectAppointmentsUsingType typeId, DeleteAppointmentType typeId,
               SelectAppointmentTypes uid, SelectAppointments uid],
           sc_toasts := sc_toasts w @ [deleted_toast],
           sc_appointmentTypes :=
             filter (\<lambda>t. t_user_id t = uid \<and> t_id t \<noteq> typeId)
               (sv_appointment_types (sc_service w)),
           sc_appointments :=
             map appointment.truncate
               (filter (\<lambda>a. a_user_id a = uid) (sv_appointments (sc_service w)))\<rparr>"
  using assms
  by (simp add: handleDeleteAppointmentType_def Let_def issue_def add_toast_def
      appointmentsUsingType_empty fetchAppointmentTypes_def fetchAppointments_scheduling_def
      delete_type_def conj_commute)

lemma guard_signed_out:
  assumes "fails (SelectAppointmentsUsingType typeId) = None"
    and "\<not> type_in_use typeId (sc_service w)"
    and "fails (DeleteAppointmentType typeId) = None"
    and "sc_currentUser w = None"
  shows "handleDeleteAppointmentType fails typeId w =
         w\<lparr>sc_service := delete_type typeId (sc_service w),
           sc_requests := sc_requests w @
              [SelectAppointmentsUsingType typeId, DeleteAppointmentType typeId],
           sc_toasts := sc_toasts w @ [deleted_toast]\<rparr>"
  using assms
  by (simp add: handleDeleteAppointmentType_def Let_def issue_def add_toast_def
      appointmentsUsingType_empty fetchAppointmentTypes_def fetchAppointments_scheduling_def)

text \<open>
  Claim C3, as stated: with a referencing appointment the deletion is refused with the
  blocking notification and without mutation, and with none the delete is issued. The
  handler first asks the service whether the type is in use, and when that request fails
  it shows the error notification and stops: for the type \<open>t1\<close>, which no appointment
  references, no delete is issued.
\<close>

theorem referential_guard_counterexample:
  "\<not> type_in_use ''t1'' (sc_service (clinic [])) \<and>
   sc_requests (handleDeleteAppointmentType check_fails ''t1'' (clinic [])) =
     [SelectAppointmentsUsingType ''t1''] \<and>
   sc_toasts (handleDeleteAppointmentType check_fails ''t1'' (clinic [])) =
     [delete_failed_toast ''Failed to fetch''] \<and>
   sc_service (handleDeleteAppointmentType check_fails ''t1'' (clinic [])) = sc_service (clinic [])"
  by (simp add: guard_check_failure check_fails_def clinic_def type_in_use_def)

text \<open>
  Claim C3, amended. The handler first asks the service whether an appointment references
  the type, and what it does next depends on that request, on the store, on the delete
  request and on the session, case by case:
  \<^item> the check succeeds and at least one appointment references the type: the handler
    shows the blocking notification and does nothing else, whatever the delete would have
    answered and whoever is signed in; no delete is issued, and the store and both lists
    stay as they are;
  \<^item> the check succeeds and no appointment references the type: the delete is issued
    right after the check, whether or not it will succeed;
  \<^item> and the delete succeeds: the type is gone from the store and the success
    notification follows;
  \<^item> and a user is signed in: both lists are requested again, the types first;
  \<^item> and both of these requests succeed: the page holds the user's remaining types and
    the user's appointments, as the store has them after the delete;
  \<^item> and nobody is signed in: neither list is requested, and the page keeps both lists;
  \<^item> the check succeeds, no appointment references the type and the delete fails: the
    handler shows the error notification with the message of the failure, and the store
    and both lists stay as they are;
  \<^item> the check itself fails: the handler shows the error notification and issues no
    delete, with or without referencing appointments.
\<close>

theorem referential_guard:
  "(fails (SelectAppointmentsUsingType typeId) = None \<and> type_in_use typeId (sc_service w) \<longrightarrow>
      handleDeleteAppointmentType fails typeId w =
        w\<lparr>sc_requests := sc_requests w @ [SelectAppointmentsUsingType typeId],
          sc_toasts := sc_toasts w @ [in_use_toast]\<rparr>) \<and>
   (fails (SelectAppointmentsUsingType typeId) = None \<and>
    \<not> type_in_use typeId (sc_service w) \<longrightarrow>
      (\<exists>rest. sc_requests (handleDeleteAppointmentType fails typeId w) =
         sc_requests w @
         [SelectAppointmentsUsingType typeId, DeleteAppointmentType typeId] @ rest)) \<and>
   (fails (SelectAppointmentsUsingType typeId) = None \<and>
    \<not> type_in_use typeId (sc_service w) \<and>
    fails (DeleteAppointmentType typeId) = None \<longrightarrow>
      sc_service (handleDeleteAppointmentType fails typeId w) =
        delete_type typeId (sc_service w) \<and>
      (\<exists>others. sc_toasts (handleDeleteAppointmentType fails typeId w) =
         sc_toasts w @ [deleted_toast] @ others)) \<and>
   (fails (SelectAppointmentsUsingType typeId) = None \<and>
    \<not> type_in_use typeId (sc_service w) \<and>
    fails (DeleteAppointmentType typeId) = None \<and> sc_currentUser w = Some uid \<longrightarrow>
      sc_requests (handleDeleteAppointmentType fails typeId w) =
        sc_requests w @
        [SelectAppointmentsUsingType typeId, DeleteAppointmentType typeId,
         SelectAppointmentTypes uid, SelectAppointments uid]) \<and>
   (fails (SelectAppointmentsUsingType typeId) = None \<and>
    \<not> type_in_use typeId (sc_service w) \<and>
    fails (DeleteAppointmentType typeId) = None \<and> sc_currentUser w = Some uid \<and>
    fails (SelectAppointmentTypes uid) = None \<and> fails (SelectAppointments uid) = None \<longrightarrow>
      handleDeleteAppointmentType fails typeId w =
        w\<lparr>sc_service := delete_type typeId (sc_service w),
          sc_requests := sc_requests w @
            [SelectAppointmentsUsingType typeId, DeleteAppointmentType typeId,
             SelectAppointmentTypes uid, SelectAppointments uid],
          sc_toasts := sc_toasts w @ [deleted_toast],
          sc_appointmentTypes :=
            filter (\<lambda>t. t_user_id t = uid \<and> t_id t \<noteq> typeId)
              (sv_appointment_types (sc_service w)),
          sc_appointments :=
            map appointment.truncate
              (filter (\<lambda>a. a_user_id a = uid) (sv_appointments (sc_service w)))\<rparr>) \<and>
   (fails (SelectAppointmentsUsingType typeId) = None \<and>
    \<not> type_in_use typeId (sc_service w) \<and>
    fails (DeleteAppointmentType typeId) = None \<and> sc_currentUser w = None \<longrightarrow>
      handleDeleteAppointmentType fails typeId w =
        w\<lparr>sc_service := delete_type typeId (sc_service w),
          sc_requests := sc_requests w @
            [SelectAppointmentsUsingType typeId, DeleteAppointmentType typeId],
          sc_toasts := sc_toasts w @ [deleted_toast]\<rparr>) \<and>
   (fails (SelectAppointmentsUsingType typeId) = None \<and>
    \<not> type_in_use typeId (sc_service w) \<and>
    fails (DeleteAppointmentType typeId) = Some msg \<longrightarrow>
      handleDeleteAppointmentType fails typeId w =
        w\<lparr>sc_requests := sc_requests w @
            [SelectAppointmentsUsingType typeId, DeleteAppointmentType typeId],
          sc_toasts := sc_toasts w @ [delete_failed_toast msg]\<rparr>) \<and>
   (fails (SelectAppointmentsUsingType typeId) = Some msg \<longrightarrow>
      handleDeleteAppointmentType fails typeId w =
        w\<lparr>sc_requests := sc_requests w @ [SelectAppointmentsUsingType typeId],
          sc_toasts := sc_toasts w @ [delete_failed_toast msg]\<rparr>)"
proof (intro conjI impI; (elim conjE)?)
  assume "fails (SelectAppointmentsUsingType typeId) = None"
    and "type_in_use typeId (sc_service w)"
  then show "handleDeleteAppointmentType fails typeId w =
        w\<lparr>sc_requests := sc_requests w @ [SelectAppointmentsUsingType typeId],
          sc_toasts := sc_toasts w @ [in_use_toast]\<rparr>"
    by (rule guard_refuses)
next
  assume "fails (SelectAppointmentsUsingType typeId) = None"
    and "\<not> type_in_use typeId (sc_service w)"
  then show "\<exists>rest. sc_requests (handleDeleteAppointmentType fails typeId w) =
         sc_requests w @
         [SelectAppointmentsUsingType typeId, DeleteAppointmentType typeId] @ rest"
    by (rule guard_issues_delete)
next
  assume "fails (SelectAppointmentsUsingType typeId) = None"
    and "\<not> type_in_use typeId (sc_service w)"
    and "fails (DeleteAppointmentType typeId) = None"
  then show "sc_service (handleDeleteAppointmentType fails typeId w) =
        delete_type typeId (sc_service w)"
    by (rule guard_removes_type(1))
next
  assume "fails (SelectAppointmentsUsingType typeId) = None"
    and "\<not> type_in_use typeId (sc_service w)"
    and "fails (DeleteAppointmentType typeId) = None"
  then show "\<exists>others. sc_toasts (handleDeleteAppointmentType fails typeId w) =
         sc_toasts w @ [deleted_toast] @ others"
    by (rule guard_removes_type(2))
next
  assume "fails (SelectAppointmentsUsingType typeId) = None"
    and "\<not> type_in_use typeId (sc_service w)"
    and "fails (DeleteAppointmentType typeId) = None"
    and "sc_currentUser w = Some uid"
  then show "sc_requests (handleDeleteAppointmentType fails typeId w) =
        sc_requests w @
        [SelectAppointmentsUsingType typeId, DeleteAppointmentType typeId,
         SelectAppointmentTypes uid, SelectAppointments uid]"
    by (rule guard_deletes(1))
next
  assume "fails (SelectAppointmentsUsingType typeId) = None"
    and "\<not> type_in_use typeId (sc_service w)"
    and "fails (DeleteAppointmentType typeId) = None"
    and "sc_currentUser w = Some uid"
    and "fails (SelectAppointmentTypes uid) = None"
    and "fails (SelectAppointments uid) = None"
  then show "handleDeleteAppointmentType fails typeId w =
        w\<lparr>sc_service := delete_type typeId (sc_service w),
          sc_requests := sc_requests w @
            [SelectAppointmentsUsingType typeId, DeleteAppointmentType typeId,
             SelectAppointmentTypes uid, SelectAppointments uid],
          sc_toasts := sc_toasts w @ [deleted_toast],
          sc_appointmentTypes :=
            filter (\<lambda>t. t_user_id t = uid \<and> t_id t \<noteq> typeId)
              (sv_appointment_types (sc_service w)),
          sc_appointments :=
            map appointment.truncate
              (filter (\<lambda>a. a_user_id a = uid) (sv_appointments (sc_service w)))\<rparr>"
    by (rule guard_lists_refreshed)
next
  assume "fails (SelectAppointmentsUsingType typeId) = None"
    and "\<not> type_in_use typeId (sc_service w)"
    and "fails (DeleteAppointmentType typeId) = None"
    and "sc_currentUser w = None"
  then show "handleDeleteAppointmentType fails typeId w =
        w\<lparr>sc_service := delete_type typeId (sc_service w),
          sc_requests := sc_requests w @
            [SelectAppointmentsUsingType typeId, DeleteAppointmentType typeId],
          sc_toasts := sc_toasts w @ [deleted_toast]\<rparr>"
    by (rule guard_signed_out)
next
  assume "fails (SelectAppointmentsUsingType typeId) = None"
    and "\<not> type_in_use typeId (sc_service w)"
    and "fails (DeleteAppointmentType typeId) = Some msg"
  then show "handleDeleteAppointmentType fails typeId w =
        w\<lparr>sc_requests := sc_requests w @
            [SelectAppointmentsUsingType typeId, DeleteAppointmentType typeId],
          sc_toasts := sc_toasts w @ [delete_failed_toast msg]\<rparr>"
    by (rule guard_delete_failure)
next
  assume "fails (SelectAppointmentsUsingType typeId) = Some msg"
  then show "handleDeleteAppointmentType fails typeId w =
        w\<lparr>sc_requests := sc_requests w @ [SelectAppointmentsUsingType typeId],
          sc_toasts := sc_toasts w @ [delete_failed_toast msg]\<rparr>"
    by (rule guard_check_failure)
qed

theorem referential_guard_witness:
  "never_fails (SelectAppointmentsUsingType ''t1'') = None \<and>
   type_in_use ''t1'' (sc_service (clinic [appointment_of ''a1'' None])) \<and>
   handleDeleteAppointmentType never_fails ''t1'' (clinic [appointment_of ''a1'' None]) =
     (clinic [appointment_of ''a1'' None])
       \<lparr>sc_requests := [SelectAppointmentsUsingType ''t1''], sc_toasts := [in_use_toast]\<rparr> \<and>
   delete_fails (SelectAppointmentsUsingType ''t1'') = None \<and>
   handleDeleteAppointmentType delete_fails ''t1''
       (signed_out (clinic [appointment_of ''a1'' None])) =
     (signed_out (clinic [appointment_of ''a1'' None]))
       \<lparr>sc_requests := [SelectAppointmentsUsingType ''t1''], sc_toasts := [in_use_toast]\<rparr> \<and>
   \<not> type_in_use ''t1'' (sc_service (clinic [])) \<and>
   never_fails (DeleteAppointmentType ''t1'') = None \<and>
   sc_currentUser (clinic []) = Some ''u1'' \<and>
   never_fails (SelectAppointmentTypes ''u1'') = None \<and>
   never_fails (SelectAppointments ''u1'') = None \<and>
   handleDeleteAppointmentType never_fails ''t1'' (clinic []) =
     \<lparr>sc_service = \<lparr>sv_appointments = [], sv_appointment_types = []\<rparr>,
      sc_requests = [SelectAppointmentsUsingType ''t1'', DeleteAppointmentType ''t1'',
                     SelectAppointmentTypes ''u1'', SelectAppointments ''u1''],
      sc_currentUser = Some ''u1'', sc_appointments = [], sc_appointmentTypes = [],
      sc_toasts = [deleted_toast]\<rparr> \<and>
   \<not> type_in_use ''t1'' (sc_service (signed_out (clinic []))) \<and>
   sc_currentUser (signed_out (clinic [])) = None \<and>
   handleDeleteAppointmentType never_fails ''t1'' (signed_out (clinic [])) =
     \<lparr>sc_service = \<lparr>sv_appointments = [], sv_appointment_types = []\<rparr>,
      sc_requests = [SelectAppointmentsUsingType ''t1'', DeleteAppointmentType ''t1''],
      sc_currentUser = None, sc_appointments = [], sc_appointmentTypes = [consulta_padrao],
      sc_toasts = [deleted_toast]\<rparr> \<and>
   delete_fails (DeleteAppointmentType ''t1'') = Some ''Failed to fetch'' \<and>
   handleDeleteAppointmentType delete_fails ''t1'' (clinic []) =
     (clinic [])
       \<lparr>sc_requests := [SelectAppointmentsUsingType ''t1'', DeleteAppointmentType ''t1''],
        sc_toasts := [delete_failed_toast ''Failed to fetch'']\<rparr> \<and>
   check_fails (SelectAppointmentsUsingType ''t1'') = Some ''Failed to fetch'' \<and>
   handleDeleteAppointmentType check_fails ''t1'' (clinic [appointment_of ''a1'' None]) =
     (clinic [appointment_of ''a1'' None])
       \<lparr>sc_requests := [SelectAppointmentsUsingType ''t1''],
        sc_toasts := [delete_failed_toast ''Failed to fetch'']\<rparr>"
  using
    referential_guard [where fails = never_fails and typeId = "''t1''"
      and w = "clinic [appointment_of ''a1'' None]"]
    referential_guard [where fails = delete_fails and typeId = "''t1''"
      and w = "signed_out (clinic [appointment_of ''a1'' None])"]
    referential_guard [where fails = never_fails and typeId = "''t1''" and w = "clinic []"
      and uid = "''u1''"]
    referential_guard [where fails = never_fails and typeId = "''t1''"
      and w = "signed_out (clinic [])"]
    referential_guard [where fails = delete_fails and typeId = "''t1''" and w = "clinic []"
      and msg = "''Failed to fetch''"]
    referential_guard [where fails = check_fails and typeId = "''t1''"
      and w = "clinic [appointment_of ''a1'' None]" and msg = "''Failed to fetch''"]
  by (simp add: never_fails_def check_fails_def delete_fails_def signed_out_def clinic_def
      type_in_use_def appointment_of_def delete_type_def consulta_padrao_def
      appointment.truncate_def)

section \<open>Claims about the change of password\<close>

text \<open>
  Claim C8: two submissions that pass the validation and differ only in the current
  password lead to the same request, \<open>updateUser\<close> with the new password as its only
  field, and to the same state of the form afterwards: the entered current password is
  checked for its length and for nothing else.
\<close>

theorem password_change_ignores_current:
  assumes "passwordSchema d1" and "passwordSchema d2"
    and "newPassword d1 = newPassword d2" and "confirmPassword d1 = confirmPassword d2"
  shows "handleSubmit outcome d1 st = handleSubmit outcome d2 st \<and>
         cp_requests (handleSubmit outcome d1 st) = cp_requests st @ [UpdateUser (newPassword d1)]"
  using assms by (cases outcome) (simp_all add: handleSubmit_def onSubmit_def Let_def)

theorem password_change_ignores_current_witness:
  "passwordSchema (submission ''old-secret'') \<and> passwordSchema (submission ''something else'') \<and>
   newPassword (submission ''old-secret'') = newPassword (submission ''something else'') \<and>
   confirmPassword (submission ''old-secret'') = confirmPassword (submission ''something else'') \<and>
   handleSubmit None (submission ''old-secret'') idle_form =
     handleSubmit None (submission ''something else'') idle_form \<and>
   cp_requests (handleSubmit None (submission ''old-secret'') idle_form) = [UpdateUser ''new-secret'']"
  using password_change_ignores_current [where ?d1.0 = "submission ''old-secret''"
      and ?d2.0 = "submission ''something else''" and outcome = None and st = idle_form]
  by (simp add: passwordSchema_def submission_def idle_form_def handleSubmit_def onSubmit_def
      Let_def)

end
